theory Spec2Isabelle
  imports Main "HOL-Library.Multiset"
begin

section \<open>Data model of the ai-chat plugin (src/src/index.ts)\<close>

text \<open>
  A JavaScript string is modelled as a \<^typ>\<open>string\<close>; \<open>length\<close> stands for the
  \<open>.length\<close> of the source (one \<^typ>\<open>char\<close> per code unit, so code units above 255
  are not represented).
\<close>

text \<open>\<open>interface Message { role: string; content: string }\<close>\<close>

record Message =
  role :: string
  content :: string

text \<open>
  \<open>interface AIChatTokenUsage\<close>, one row of the table \<open>ai_chat_token_usage\<close>. The column
  \<open>id\<close> is the primary key; it is called \<open>usageId\<close> here because \<open>id\<close> is the identity
  function of HOL. The counters are the \<open>integer\<close> columns of the table.
\<close>

record AIChatTokenUsage =
  usageId :: string
  userName :: string
  completionTokens :: int
  promptTokens :: int
  totalTokens :: int
  remark :: string

text \<open>The \<open>usage\<close> object of a completion response, the second parameter of
  \<open>updateTokenUsage\<close>.\<close>

record Usage =
  completion_tokens :: int
  prompt_tokens :: int
  total_tokens :: int

text \<open>
  The fields of \<open>Config\<close> that the plugin's control flow and its request depend on.
  \<open>systemPrompt\<close> and \<open>customModel\<close> have no default in the schema and may be undefined
  (\<open>None\<close>). The schema bounds \<open>maxTokens\<close> by \<open>min(16)\<close> and \<open>max(4096)\<close>, but the functions
  below take it as any number, as the source does. The three sampling parameters
  (temperature and the two penalties) are copied into the request unchanged and are left out.
\<close>

record Config =
  model :: string
  customModel :: "string option"
  systemPrompt :: "string option"
  maxTokens :: int

text \<open>The fields of a Koishi \<open>Session\<close> that the plugin reads. \<open>sessionContent\<close> is
  \<open>session.content\<close> (renamed: \<open>content\<close> is a field of \<open>Message\<close>).\<close>

record Session =
  userId :: string
  username :: string
  platform :: string
  sessionContent :: string

text \<open>JavaScript truthiness of a possibly undefined string: defined and not empty.\<close>

definition truthy :: "string option \<Rightarrow> bool" where
  "truthy s = (case s of None \<Rightarrow> False | Some t \<Rightarrow> t \<noteq> [])"

section \<open>Truncator: \<open>truncateContextIfNeeded\<close>\<close>

text \<open>
  \<open>truncatedContext.reduce((acc, curr) => acc + curr.content.length, 0)\<close>: a left fold
  from 0.
\<close>

definition contentLength :: "Message list \<Rightarrow> int" where
  "contentLength context = foldl (\<lambda>acc curr. acc + int (length (content curr))) 0 context"

text \<open>\<open>Array.prototype.shift\<close> removes the first element, and does nothing to an empty
  array.\<close>

definition shift :: "'a list \<Rightarrow> 'a list" where
  "shift xs = (case xs of [] \<Rightarrow> [] | _ # rest \<Rightarrow> rest)"

text \<open>
  The \<open>while\<close> loop of \<open>truncateContextIfNeeded\<close>. Nothing in the source bounds the number
  of iterations, so the loop is a partial function: \<open>None\<close> stands for a loop that never
  exits.
\<close>

partial_function (option) truncateLoop :: "Message list \<Rightarrow> int \<Rightarrow> Message list option" where
  "truncateLoop truncatedContext maxTok =
     (if contentLength truncatedContext > maxTok
      then truncateLoop (shift truncatedContext) maxTok
      else Some truncatedContext)"

text \<open>\<open>let truncatedContext = [...context]\<close>, the loop, and \<open>return truncatedContext\<close>.
  The copy is the list itself: lists are values.\<close>

definition truncateContextIfNeeded :: "Message list \<Rightarrow> int \<Rightarrow> Message list option" where
  "truncateContextIfNeeded context maxTok = truncateLoop context maxTok"

section \<open>Input normalisation of the middleware\<close>

text \<open>
  \<open>String.prototype.trim\<close> strips white space and line terminators from both ends. Of the
  code points it strips, these fit a \<^typ>\<open>char\<close>: TAB, LF, VT, FF, CR, SPACE and NBSP.
\<close>

definition isWhiteSpace :: "char \<Rightarrow> bool" where
  "isWhiteSpace c = (of_char c \<in> {9, 10, 11, 12, 13, 32, 160 :: nat})"

definition trim :: "string \<Rightarrow> string" where
  "trim s = rev (dropWhile isWhiteSpace (rev (dropWhile isWhiteSpace s)))"

text \<open>
  \<^verbatim>\<open>.replace(/<[^>]*>/g, "")\<close>: scanning from the left, a less-than sign that has a
  greater-than sign somewhere after it starts a match, which runs to the first such
  greater-than sign (the class takes every other character, line breaks and further
  less-than signs included); the match is deleted and the scan goes on behind it. A
  less-than sign with no greater-than sign after it matches nothing and is kept.
\<close>

function removeTags :: "string \<Rightarrow> string" where
  "removeTags [] = []"
| "removeTags (c # cs) =
     (if c = CHR ''<'' \<and> CHR ''>'' \<in> set cs
      then removeTags (tl (dropWhile (\<lambda>d. d \<noteq> CHR ''>'') cs))
      else c # removeTags cs)"
  by pat_completeness auto
termination
proof (relation "measure length")
  fix c :: char and cs :: string
  have "length (dropWhile (\<lambda>d. d \<noteq> CHR ''>'') cs) \<le> length cs"
    by (rule length_dropWhile_le)
  then show "(tl (dropWhile (\<lambda>d. d \<noteq> CHR ''>'') cs), c # cs) \<in> measure length"
    by simp
qed simp_all

section \<open>Stores and the outside world\<close>

text \<open>
  What \<open>JSON.parse\<close> makes of a conversation record. \<open>loadContext\<close> returns the value
  unchecked, so it need not be a \<open>Message[]\<close>: it may be no array at all (\<open>null\<close>, an object,
  a number, a string: \<open>NotArray\<close>), and an entry of an array may have a \<open>content\<close> that is
  \<open>null\<close> or missing (\<open>NoContent\<close>, with the entry's \<open>role\<close>). What \<open>chat\<close> reads of the value
  is whether it is an array, the \<open>role\<close> of its first entry and the \<open>content.length\<close> of its
  entries. Entries that are no objects, and contents that are neither strings nor \<open>null\<close>,
  are not represented.
\<close>

datatype Entry = Msg Message | NoContent string

datatype Parsed = Array "Entry list" | NotArray

text \<open>
  The conversation record of a user is the file \<open>contextDir/uid.json\<close>; the file system is
  a map from the user identifier to what the file holds: text that parses (\<open>Json\<close>, with the
  parsed value), or a file that fails to be read or parsed (\<open>readFileSync\<close> or \<open>JSON.parse\<close>
  throws): \<open>Unreadable\<close>.
\<close>

datatype StoredContext = Json Parsed | Unreadable

text \<open>
  \<open>activeChats\<close> is the \<open>Map<string, boolean>\<close> of the middleware, \<open>files\<close> the context
  directory and \<open>database\<close> the usage table, keyed by its primary key.
\<close>

record World =
  activeChats :: "string \<rightharpoonup> bool"
  files :: "string \<rightharpoonup> StoredContext"
  database :: "string \<rightharpoonup> AIChatTokenUsage"

text \<open>Exceptions: of the I/O operations, and the TypeError of reading a property of
  \<open>null\<close> or \<open>undefined\<close> or calling what is no function.\<close>

datatype Exn = ReadFailure | WriteFailure | LookupFailure | TypeError

text \<open>The request body of \<open>chat\<close>, without the sampling parameters.\<close>

record Request =
  req_model :: string
  req_messages :: "Message list"
  req_max_tokens :: int

text \<open>
  A completion response body (\<open>data\<close>). \<open>data.usage\<close> and \<open>data.choices\<close> may be missing; a
  choice may lack its \<open>message\<close>; a message, when there, is a \<open>Message\<close>.
\<close>

record Choice =
  message :: "Message option"

record Completion =
  usage :: "Usage option"
  choices :: "Choice list option"

text \<open>
  What \<open>await fetch(...)\<close> gives: the promise rejects (\<open>FetchError\<close>), or there is a response
  with its \<open>ok\<close> flag and its body. The body is \<open>None\<close> when \<open>response.json()\<close> rejects or
  yields \<open>null\<close>.
\<close>

datatype FetchResult = FetchError | Response bool "Completion option"

text \<open>
  How the outside world answers during one call: the completion endpoint as a function of
  the request, whether \<open>writeFileSync\<close>, \<open>database.get\<close> and \<open>database.upsert\<close> succeed, and
  what the Lark contact lookup returns (\<open>name\<close> and \<open>nickname\<close>; \<open>None\<close> when the request
  fails or its body lacks \<open>data.data.user\<close>).
\<close>

record Env =
  fetch :: "Request \<Rightarrow> FetchResult"
  writeFileSync_ok :: bool
  database_get_ok :: bool
  database_upsert_ok :: bool
  larkUser :: "(string \<times> string) option"

text \<open>An endpoint that gives the same answer to every request.\<close>

definition answering :: "FetchResult \<Rightarrow> Request \<Rightarrow> FetchResult" where
  "answering result request = result"

section \<open>Context Store: \<open>saveContext\<close>, \<open>loadContext\<close>, \<open>resetContext\<close>\<close>

text \<open>\<open>writeFileSync\<close> replaces the record by \<open>JSON.stringify(context)\<close>, which parses back to
  the array of these messages, or throws; a write that throws is taken to leave the record
  as it was.\<close>

definition saveContext ::
  "Env \<Rightarrow> (string \<rightharpoonup> StoredContext) \<Rightarrow> string \<Rightarrow> Message list \<Rightarrow>
     Exn + (string \<rightharpoonup> StoredContext)" where
  "saveContext env fs uid context =
     (if writeFileSync_ok env then Inr (fs(uid \<mapsto> Json (Array (map Msg context))))
      else Inl WriteFailure)"

text \<open>\<open>loadContext\<close>: the parsed value of the record as it is, the empty array when there is
  no record, an exception when the record cannot be read or parsed.\<close>

definition loadContext :: "(string \<rightharpoonup> StoredContext) \<Rightarrow> string \<Rightarrow> Exn + Parsed" where
  "loadContext fs uid =
     (case fs uid of
        Some (Json parsed) \<Rightarrow> Inr parsed
      | Some Unreadable \<Rightarrow> Inl ReadFailure
      | None \<Rightarrow> Inr (Array []))"

text \<open>\<open>resetContext\<close> deletes the record when it is there; the \<open>unlinkSync\<close> is taken to
  succeed (an exception of it is caught and logged by the source).\<close>

definition resetContext :: "(string \<rightharpoonup> StoredContext) \<Rightarrow> string \<Rightarrow> (string \<rightharpoonup> StoredContext)" where
  "resetContext fs uid = (case fs uid of Some _ \<Rightarrow> fs(uid := None) | None \<Rightarrow> fs)"

section \<open>Usage Ledger: \<open>updateTokenUsage\<close>\<close>

text \<open>The object literal \<open>newUsage\<close> (lines 290 to 297): five fields.\<close>

record NewUsage =
  new_id :: string
  new_userName :: string
  new_completionTokens :: int
  new_promptTokens :: int
  new_totalTokens :: int

text \<open>
  \<open>ctx.database.upsert(DBTableName, [newUsage])\<close>, with Koishi's meaning of \<open>upsert\<close>: the row
  with the primary key of the given object is updated in the fields the object has and
  keeps its other columns; when there is no such row, one is inserted, its other columns at
  their initial value (the empty string for a \<open>string\<close> column).
\<close>

definition upsert :: "(string \<rightharpoonup> AIChatTokenUsage) \<Rightarrow> NewUsage \<Rightarrow> (string \<rightharpoonup> AIChatTokenUsage)" where
  "upsert db n =
     db(new_id n \<mapsto>
       (case db (new_id n) of
          Some row \<Rightarrow>
            row\<lparr>userName := new_userName n, completionTokens := new_completionTokens n,
                promptTokens := new_promptTokens n, totalTokens := new_totalTokens n\<rparr>
        | None \<Rightarrow>
            \<lparr>usageId = new_id n, userName = new_userName n,
             completionTokens = new_completionTokens n, promptTokens = new_promptTokens n,
             totalTokens = new_totalTokens n, remark = []\<rparr>))"

text \<open>
  \<open>(await ctx.database.get(DBTableName, uid))[0] || {userName: "", completionTokens: 0,
  promptTokens: 0, totalTokens: 0}\<close>: the four fields read from it.
\<close>

definition existingUsage :: "(string \<rightharpoonup> AIChatTokenUsage) \<Rightarrow> string \<Rightarrow> string \<times> int \<times> int \<times> int" where
  "existingUsage db uid =
     (case db uid of
        Some row \<Rightarrow> (userName row, completionTokens row, promptTokens row, totalTokens row)
      | None \<Rightarrow> ([], 0, 0, 0))"

text \<open>Lines 275 to 288: the display name. The lookup of the Lark branch may throw.\<close>

definition resolveUserName :: "Env \<Rightarrow> Session \<Rightarrow> string \<Rightarrow> Exn + string" where
  "resolveUserName env session existingName =
     (if existingName = [] then
        (if username session \<noteq> userId session then Inr (username session)
         else if platform session = ''lark'' then
           (case larkUser env of
              None \<Rightarrow> Inl LookupFailure
            | Some (name, nickname) \<Rightarrow> Inr (name @ ''('' @ nickname @ '')''))
         else Inr existingName)
      else Inr existingName)"

text \<open>
  The counters are JavaScript numbers, that is IEEE 754 doubles, and \<open>+\<close> on them is the
  exact sum rounded to the nearest double, a tie going to the even significand. Every
  integer up to \<open>2^53 = 9007199254740992\<close> in magnitude is a double; from \<open>2^k\<close> to
  \<open>2^(k+1)\<close>, for \<open>k\<close> from 53 on, the doubles are the multiples of \<open>2^(k-52)\<close>. The integers
  of the model stand for the doubles of the same value. A sum beyond the largest double
  (about \<open>1.8e308\<close>) is \<open>Infinity\<close>, which is not represented.
\<close>

fun bitLength :: "nat \<Rightarrow> nat" where
  "bitLength n = (if n = 0 then 0 else Suc (bitLength (n div 2)))"

definition roundToDouble :: "int \<Rightarrow> int" where
  "roundToDouble n =
     (if \<bar>n\<bar> \<le> 9007199254740992 then n
      else
        (let ulp = 2 ^ (bitLength (nat \<bar>n\<bar>) - 53);
             q = \<bar>n\<bar> div ulp;
             r = \<bar>n\<bar> mod ulp;
             significand = (if 2 * r < ulp \<or> (2 * r = ulp \<and> even q) then q else q + 1)
         in sgn n * (significand * ulp)))"

definition jsAdd :: "int \<Rightarrow> int \<Rightarrow> int" where
  "jsAdd a b = roundToDouble (a + b)"

text \<open>
  \<open>updateTokenUsage\<close> up to the \<open>await\<close> of its upsert (lines 267 to 299): the read of the
  table, the display name, and the object \<open>newUsage\<close>. The whole body of the function is
  inside \<open>try\<close>: when the read or the lookup throws, or a field of an undefined \<open>usage\<close> is
  read, the exception is logged and nothing is written (\<open>None\<close>).
\<close>

definition computeNewUsage ::
  "Env \<Rightarrow> Session \<Rightarrow> Usage option \<Rightarrow> (string \<rightharpoonup> AIChatTokenUsage) \<Rightarrow> NewUsage option" where
  "computeNewUsage env session usage_arg db =
     (if \<not> database_get_ok env then None
      else
        (case existingUsage db (userId session) of
           (existingName, existingCompletion, existingPrompt, existingTotal) \<Rightarrow>
             (case resolveUserName env session existingName of
                Inl e \<Rightarrow> None
              | Inr name \<Rightarrow>
                  (case usage_arg of
                     None \<Rightarrow> None
                   | Some u \<Rightarrow>
                       Some \<lparr>new_id = userId session, new_userName = name,
                             new_completionTokens = jsAdd existingCompletion (completion_tokens u),
                             new_promptTokens = jsAdd existingPrompt (prompt_tokens u),
                             new_totalTokens = jsAdd existingTotal (total_tokens u)\<rparr>))))"

text \<open>The upsert of line 301, awaited inside the same \<open>try\<close>: an upsert that throws is logged
  and leaves the table as it was.\<close>

definition writeNewUsage ::
  "Env \<Rightarrow> NewUsage \<Rightarrow> (string \<rightharpoonup> AIChatTokenUsage) \<Rightarrow> (string \<rightharpoonup> AIChatTokenUsage)" where
  "writeNewUsage env n db = (if database_upsert_ok env then upsert db n else db)"

text \<open>
  A call of \<open>updateTokenUsage\<close> that runs to its end with no other write to the table
  between its read and its upsert. The function is \<open>async\<close>, it awaits between the two, and
  its caller does not await it: calls that overlap are the runs of \<open>ledgerRun\<close> below.
\<close>

definition updateTokenUsage ::
  "Env \<Rightarrow> Session \<Rightarrow> Usage option \<Rightarrow> (string \<rightharpoonup> AIChatTokenUsage) \<Rightarrow>
     (string \<rightharpoonup> AIChatTokenUsage)" where
  "updateTokenUsage env session usage_arg db =
     (case computeNewUsage env session usage_arg db of
        None \<Rightarrow> db
      | Some n \<Rightarrow> writeNewUsage env n db)"

text \<open>
  Calls of \<open>updateTokenUsage\<close> in progress: the table, and the calls that have built their
  \<open>newUsage\<close> from what they read and await their upsert. An event is a call that runs up to
  that \<open>await\<close>, or the upsert of one of the awaiting calls.
\<close>

record Ledger =
  usageTable :: "string \<rightharpoonup> AIChatTokenUsage"
  awaiting :: "(Env \<times> NewUsage) list"

datatype LedgerEvent = Call Env Session "Usage option" | Upsert nat

fun ledgerStep :: "LedgerEvent \<Rightarrow> Ledger \<Rightarrow> Ledger" where
  "ledgerStep (Call env session usage_arg) l =
     (case computeNewUsage env session usage_arg (usageTable l) of
        None \<Rightarrow> l
      | Some n \<Rightarrow> l\<lparr>awaiting := awaiting l @ [(env, n)]\<rparr>)"
| "ledgerStep (Upsert i) l =
     (if i < length (awaiting l) then
        (case awaiting l ! i of
           (env, n) \<Rightarrow>
             \<lparr>usageTable = writeNewUsage env n (usageTable l),
              awaiting = take i (awaiting l) @ drop (Suc i) (awaiting l)\<rparr>)
      else l)"

fun ledgerRun :: "LedgerEvent list \<Rightarrow> Ledger \<Rightarrow> Ledger" where
  "ledgerRun [] l = l"
| "ledgerRun (e # events) l = ledgerRun events (ledgerStep e l)"

section \<open>Request Orchestrator: \<open>chat\<close>\<close>

text \<open>
  Lines 198 to 211, on the value that \<open>loadContext\<close> returned: drop a leading system
  message, push the user message, truncate, and only then put the configured system prompt
  in front. These lines stand before the \<open>try\<close>, and they throw a TypeError
  \<^item> on a value that is no array: \<open>context.length\<close> of \<open>null\<close> at line 199, or \<open>context.push\<close>,
    which is no function, at line 202;
  \<^item> on an array with an entry (after the drop of line 200) whose content is \<open>null\<close> or
    missing: the first test of the truncation loop (line 180) reads \<open>curr.content.length\<close> of
    every entry, before anything is shifted.
  The outer \<open>None\<close> is a truncation loop that does not exit.
\<close>

definition entryRole :: "Entry \<Rightarrow> string" where
  "entryRole e = (case e of Msg m \<Rightarrow> role m | NoContent r \<Rightarrow> r)"

text \<open>The entries as messages; \<open>None\<close> when an entry has no content to take the length of.\<close>

fun messagesOf :: "Entry list \<Rightarrow> Message list option" where
  "messagesOf [] = Some []"
| "messagesOf (Msg m # rest) = (case messagesOf rest of None \<Rightarrow> None | Some ms \<Rightarrow> Some (m # ms))"
| "messagesOf (NoContent r # rest) = None"

definition systemMessage :: "Config \<Rightarrow> Message list" where
  "systemMessage config =
     (case systemPrompt config of
        None \<Rightarrow> []
      | Some prompt \<Rightarrow>
          (if prompt = [] then []
           else [\<lparr>role = ''system'', content = prompt @ [CHR 0x0A, CHR 0x0A]\<rparr>]))"

definition prepareContext ::
  "Config \<Rightarrow> Parsed \<Rightarrow> string \<Rightarrow> (Exn + Message list) option" where
  "prepareContext config loaded input =
     (case loaded of
        NotArray \<Rightarrow> Some (Inl TypeError)
      | Array entries \<Rightarrow>
          (let context = (case entries of
                            [] \<Rightarrow> []
                          | first # rest \<Rightarrow>
                              if entryRole first = ''system'' then rest else entries);
               context = context @ [Msg \<lparr>role = ''user'', content = input\<rparr>]
           in case messagesOf context of
                None \<Rightarrow> Some (Inl TypeError)
              | Some messages \<Rightarrow>
                  (case truncateContextIfNeeded messages (maxTokens config) of
                     None \<Rightarrow> None
                   | Some kept \<Rightarrow> Some (Inr (systemMessage config @ kept)))))"

text \<open>The body of the request: \<open>config.customModel || config.model\<close> and the messages.\<close>

definition requestBody :: "Config \<Rightarrow> Message list \<Rightarrow> Request" where
  "requestBody config context =
     \<lparr>req_model = (if truthy (customModel config) then the (customModel config) else model config),
      req_messages = context,
      req_max_tokens = maxTokens config\<rparr>"

text \<open>\<open>data.choices[0].message.content\<close>; \<open>None\<close> when the access throws a TypeError.\<close>

definition replyText :: "Completion \<Rightarrow> string option" where
  "replyText data =
     (case choices data of
        None \<Rightarrow> None
      | Some [] \<Rightarrow> None
      | Some (choice # _) \<Rightarrow>
          (case message choice of None \<Rightarrow> None | Some m \<Rightarrow> Some (content m)))"

text \<open>
  The \<open>try\<close> block of \<open>chat\<close> (lines 224 to 255) with its \<open>catch\<close>, which returns the empty
  string: the call of the endpoint, the status check, the usage update, the reply text,
  and the write-back of the context. The usage update is not awaited; it is taken to run
  to its end at the call.
\<close>

definition chatRequest :: "Config \<Rightarrow> Env \<Rightarrow> Session \<Rightarrow> Message list \<Rightarrow> World \<Rightarrow> string \<times> World" where
  "chatRequest config env session context w =
     (case fetch env (requestBody config context) of
        FetchError \<Rightarrow> ([], w)
      | Response ok body \<Rightarrow>
          (if \<not> ok then ([], w)
           else
             (case body of
                None \<Rightarrow> ([], w)
              | Some data \<Rightarrow>
                  (let w1 = w\<lparr>database := updateTokenUsage env session (usage data) (database w)\<rparr>
                   in case replyText data of
                        None \<Rightarrow> ([], w1)
                      | Some text \<Rightarrow>
                          (case saveContext env (files w1) (userId session)
                                  (context @ [\<lparr>role = ''assistant'', content = text\<rparr>]) of
                             Inl e \<Rightarrow> ([], w1)
                           | Inr fs \<Rightarrow> (text, w1\<lparr>files := fs\<rparr>))))))"

text \<open>
  \<open>chat\<close>. \<open>loadContext\<close> and the preparation of the context stand before the \<open>try\<close>, so an
  exception of either leaves \<open>chat\<close> (\<open>Inl\<close>). The outer \<open>None\<close> is a call that never
  returns.
\<close>

definition chat :: "Config \<Rightarrow> Env \<Rightarrow> Session \<Rightarrow> string \<Rightarrow> World \<Rightarrow> ((Exn + string) \<times> World) option" where
  "chat config env session input w =
     (case loadContext (files w) (userId session) of
        Inl e \<Rightarrow> Some (Inl e, w)
      | Inr loaded \<Rightarrow>
          (case prepareContext config loaded input of
             None \<Rightarrow> None
           | Some (Inl e) \<Rightarrow> Some (Inl e, w)
           | Some (Inr context) \<Rightarrow>
               (case chatRequest config env session context w of
                  (response, w') \<Rightarrow> Some (Inr response, w'))))"

section \<open>Dispatcher and Concurrency Gate: the middleware\<close>

text \<open>
  What the middleware sends: the busy notice, the reply of \<open>chat\<close>, or the fallback notice
  of \<open>response || "..."\<close>.
\<close>

datatype Reply = Busy | Text string | Fallback

text \<open>
  The middleware up to \<open>await chat(session, input)\<close> (lines 122 to 138): it returns
  \<open>next()\<close>, sends the busy notice, or calls \<open>chat\<close>. \<open>bots\<close> are the identifiers for which
  \<open>ctx.bots[session.userId]\<close> is defined.
\<close>

datatype Begin = PassNext | Send Reply | CallChat string

definition middleware_begin :: "string set \<Rightarrow> World \<Rightarrow> Session \<Rightarrow> World \<times> Begin" where
  "middleware_begin bots w session =
     (if userId session \<in> bots then (w, PassNext)
      else if activeChats w (userId session) = Some True then (w, Send Busy)
      else
        (let w1 = w\<lparr>activeChats := (activeChats w)(userId session \<mapsto> True)\<rparr>;
             input = removeTags (trim (sessionContent session))
         in if input = [] then (w1, PassNext) else (w1, CallChat input)))"

text \<open>The middleware after \<open>chat\<close> has returned \<open>response\<close> (lines 140 to 144).\<close>

definition middleware_end :: "World \<Rightarrow> Session \<Rightarrow> string \<Rightarrow> World \<times> Reply" where
  "middleware_end w session response =
     (w\<lparr>activeChats := (activeChats w)(userId session := None)\<rparr>,
      if response \<noteq> [] then Text response else Fallback)"

text \<open>
  One message handled from its arrival to the end of the middleware, with no other message
  in between. When \<open>chat\<close> throws, the middleware's promise rejects at the \<open>await\<close> and
  nothing after it runs.
\<close>

datatype Outcome = Passed | Replied Reply | Rejected Exn

definition middleware :: "Config \<Rightarrow> string set \<Rightarrow> Env \<Rightarrow> Session \<Rightarrow> World \<Rightarrow> (World \<times> Outcome) option" where
  "middleware config bots env session w =
     (case middleware_begin bots w session of
        (w1, PassNext) \<Rightarrow> Some (w1, Passed)
      | (w1, Send r) \<Rightarrow> Some (w1, Replied r)
      | (w1, CallChat input) \<Rightarrow>
          (case chat config env session input w1 of
             None \<Rightarrow> None
           | Some (Inl e, w2) \<Rightarrow> Some (w2, Rejected e)
           | Some (Inr response, w2) \<Rightarrow>
               (case middleware_end w2 session response of (w3, r) \<Rightarrow> Some (w3, Replied r))))"

section \<open>Messages in flight\<close>

text \<open>
  The host runs the middleware once per message, and the runs interleave at the \<open>await\<close>
  of \<open>chat\<close>: a run that has called \<open>chat\<close> is in flight until \<open>chat\<close> settles, and other
  messages arrive meanwhile. \<open>inflight\<close> lists the runs that wait for \<open>chat\<close>. A step is
  the arrival of a message (the middleware up to its \<open>await\<close>), the return of a \<open>chat\<close> in
  flight followed by the rest of the middleware, a \<open>chat\<close> in flight that throws, or the
  \<open>reset\<close> command, which goes past the middleware's flag. The stores are read and written
  by \<open>chat\<close> when it settles.
\<close>

record System =
  world :: World
  inflight :: "(Session \<times> string) list"

inductive step :: "Config \<Rightarrow> string set \<Rightarrow> System \<Rightarrow> System \<Rightarrow> bool"
  for config :: Config and bots :: "string set" where
  arrive:
    "middleware_begin bots (world s) session = (w', b) \<Longrightarrow>
     step config bots s
       \<lparr>world = w',
        inflight = (case b of CallChat input \<Rightarrow> (session, input) # inflight s | _ \<Rightarrow> inflight s)\<rparr>"
| settle:
    "(session, input) \<in> set (inflight s) \<Longrightarrow>
     chat config env session input (world s) = Some (Inr response, w') \<Longrightarrow>
     step config bots s
       \<lparr>world = fst (middleware_end w' session response),
        inflight = remove1 (session, input) (inflight s)\<rparr>"
| throw:
    "(session, input) \<in> set (inflight s) \<Longrightarrow>
     chat config env session input (world s) = Some (Inl e, w') \<Longrightarrow>
     step config bots s \<lparr>world = w', inflight = remove1 (session, input) (inflight s)\<rparr>"
| reset:
    "step config bots s (s\<lparr>world := (world s)\<lparr>files := resetContext (files (world s)) uid\<rparr>\<rparr>)"

text \<open>The plugin starts with \<open>activeChats = new Map()\<close> and nothing in flight.\<close>

inductive reachable :: "Config \<Rightarrow> string set \<Rightarrow> System \<Rightarrow> bool"
  for config :: Config and bots :: "string set" where
  initial: "activeChats w = Map.empty \<Longrightarrow> reachable config bots \<lparr>world = w, inflight = []\<rparr>"
| after: "reachable config bots s \<Longrightarrow> step config bots s s' \<Longrightarrow> reachable config bots s'"

text \<open>What holds of the flags and the runs in flight in every state the plugin reaches:
  no two runs in flight are of one user, the flag of every user with a run in flight is
  set, and no flag is set for one of the bot's own identifiers.\<close>

definition gateInvariant :: "string set \<Rightarrow> System \<Rightarrow> bool" where
  "gateInvariant bots s =
     (distinct (map (userId \<circ> fst) (inflight s)) \<and>
      (\<forall>r \<in> set (inflight s). activeChats (world s) (userId (fst r)) = Some True) \<and>
      (\<forall>u. activeChats (world s) u = Some True \<longrightarrow> u \<notin> bots))"

section \<open>Reading the usage table\<close>

text \<open>The three counters of a user, 0 when the user has no row.\<close>

definition counters :: "(string \<rightharpoonup> AIChatTokenUsage) \<Rightarrow> string \<Rightarrow> int \<times> int \<times> int" where
  "counters db uid =
     (case db uid of
        Some row \<Rightarrow> (completionTokens row, promptTokens row, totalTokens row)
      | None \<Rightarrow> (0, 0, 0))"

text \<open>Counter by counter, the first triple is at most the second.\<close>

definition countersLe :: "int \<times> int \<times> int \<Rightarrow> int \<times> int \<times> int \<Rightarrow> bool" where
  "countersLe a b =
     (case a of (c, p, t) \<Rightarrow> (case b of (c', p', t') \<Rightarrow> c \<le> c' \<and> p \<le> p' \<and> t \<le> t'))"

text \<open>A sequence of \<open>updateTokenUsage\<close> calls, each with its own outside world, session and
  usage object, one after the other: each has run to its end before the next one starts.\<close>

fun mergeAll ::
  "(Env \<times> Session \<times> Usage) list \<Rightarrow> (string \<rightharpoonup> AIChatTokenUsage) \<Rightarrow>
     (string \<rightharpoonup> AIChatTokenUsage)" where
  "mergeAll [] db = db"
| "mergeAll ((env, session, u) # calls) db =
     mergeAll calls (updateTokenUsage env session (Some u) db)"

text \<open>The stored value and the deltas are so small that every sum of the stored value and
  some of the deltas is an integer that doubles hold exactly.\<close>

definition withinExact :: "int \<Rightarrow> int list \<Rightarrow> bool" where
  "withinExact stored deltas = (\<bar>stored\<bar> + (\<Sum>d\<leftarrow>deltas. \<bar>d\<bar>) \<le> 9007199254740992)"

text \<open>No I/O operation of the call throws: the read and the upsert succeed, and so does the
  Lark lookup whenever the session is one that may need it.\<close>

definition ioSucceeds :: "Env \<Rightarrow> Session \<Rightarrow> bool" where
  "ioSucceeds env session =
     (database_get_ok env \<and> database_upsert_ok env \<and>
      (username session \<noteq> userId session \<or> platform session \<noteq> ''lark'' \<or> larkUser env \<noteq> None))"

section \<open>Basic facts\<close>

lemma answering_apply [simp]: "answering result request = result"
  by (simp add: answering_def)

text \<open>Within \<open>2^53\<close> the sum of doubles is the sum of integers.\<close>

lemma jsAdd_exact: "\<bar>a + b\<bar> \<le> 9007199254740992 \<Longrightarrow> jsAdd a b = a + b"
  by (simp add: jsAdd_def roundToDouble_def)

section \<open>Properties of the Truncator\<close>

lemma contentLength_foldl:
  "foldl (\<lambda>acc curr. acc + int (length (content curr))) a ms =
     a + (\<Sum>m\<leftarrow>ms. int (length (content m)))"
  by (induction ms arbitrary: a) simp_all

lemma contentLength_sum: "contentLength ms = (\<Sum>m\<leftarrow>ms. int (length (content m)))"
  by (simp add: contentLength_def contentLength_foldl)

lemma contentLength_Nil: "contentLength [] = 0"
  by (simp add: contentLength_def)

lemma contentLength_Cons:
  "contentLength (m # ms) = int (length (content m)) + contentLength ms"
  by (simp add: contentLength_sum)

lemma contentLength_append: "contentLength (xs @ ys) = contentLength xs + contentLength ys"
  by (simp add: contentLength_sum)

lemma contentLength_nonneg: "0 \<le> contentLength ms"
  by (induction ms) (simp_all add: contentLength_Nil contentLength_Cons)

lemma shift_Nil: "shift [] = []"
  by (simp add: shift_def)

lemma shift_Cons: "shift (m # ms) = ms"
  by (simp add: shift_def)

lemma truncateLoop_within: "contentLength c \<le> b \<Longrightarrow> truncateLoop c b = Some c"
  by (subst truncateLoop.simps) simp

lemma truncateLoop_over:
  "b < contentLength (m # ms) \<Longrightarrow> truncateLoop (m # ms) b = truncateLoop ms b"
  by (subst truncateLoop.simps) (simp add: shift_Cons)

text \<open>With a budget that is not negative the loop exits, at the first suffix (from the
  left) whose content lengths sum to at most the budget.\<close>

lemma truncateLoop_suffix:
  "0 \<le> b \<Longrightarrow>
   \<exists>k. k \<le> length c \<and> truncateLoop c b = Some (drop k c) \<and> contentLength (drop k c) \<le> b \<and>
       (\<forall>j<k. b < contentLength (drop j c))"
proof (induction c)
  case Nil
  then show ?case by (simp add: truncateLoop_within contentLength_Nil)
next
  case (Cons m ms)
  show ?case
  proof (cases "b < contentLength (m # ms)")
    case True
    from Cons obtain k where k: "k \<le> length ms" "truncateLoop ms b = Some (drop k ms)"
      "contentLength (drop k ms) \<le> b" "\<forall>j<k. b < contentLength (drop j ms)"
      by blast
    have "\<forall>j<Suc k. b < contentLength (drop j (m # ms))"
    proof (intro allI impI)
      fix j assume "j < Suc k"
      then show "b < contentLength (drop j (m # ms))"
        using True k(4) by (cases j) simp_all
    qed
    with k True have "Suc k \<le> length (m # ms) \<and>
        truncateLoop (m # ms) b = Some (drop (Suc k) (m # ms)) \<and>
        contentLength (drop (Suc k) (m # ms)) \<le> b \<and>
        (\<forall>j<Suc k. b < contentLength (drop j (m # ms)))"
      by (simp add: truncateLoop_over)
    then show ?thesis by blast
  next
    case False
    then have "truncateLoop (m # ms) b = Some (drop 0 (m # ms))"
      by (simp add: truncateLoop_within)
    with False show ?thesis
      by (intro exI [of _ 0]) simp
  qed
qed

text \<open>With a negative budget the loop never exits: the sum over the emptied array is 0,
  which still exceeds the budget, and \<open>shift\<close> leaves the empty array empty.\<close>

lemma truncateLoop_Some_nonneg:
  assumes "truncateLoop c b = Some r"
  shows "0 \<le> b"
  using assms
proof (induction c b r rule: truncateLoop.raw_induct [rotated, consumes 1])
  case (1 loop c' b' r')
  show ?case
  proof (cases "b' < contentLength c'")
    case True
    with 1(2) have "loop (shift c') b' = Some r'" by simp
    with 1(1) show ?thesis by blast
  next
    case False
    with contentLength_nonneg [of c'] show ?thesis by simp
  qed
qed

lemma truncateLoop_negative: "b < 0 \<Longrightarrow> truncateLoop c b = None"
  using truncateLoop_Some_nonneg [of c b] by (cases "truncateLoop c b") auto

text \<open>
  Claim C2, as the code has it. For every conversation \<open>c\<close> and every budget \<open>b\<close> that is
  not negative, \<open>truncateContextIfNeeded c b\<close> returns, and what it returns is \<open>c\<close> without
  its \<open>k\<close> oldest messages, where the content lengths of what is left sum to at most \<open>b\<close>
  and every shorter cut (\<open>j < k\<close>) leaves more than \<open>b\<close>: the oldest message is removed
  while the sum exceeds the budget, and the loop stops as soon as the sum is within it.
  Nothing keeps a last message: \<open>k\<close> may be the whole length.
\<close>

theorem truncate_drops_oldest_until_within_budget:
  "0 \<le> b \<Longrightarrow>
   \<exists>k. k \<le> length c \<and> truncateContextIfNeeded c b = Some (drop k c) \<and>
       contentLength (drop k c) \<le> b \<and> (\<forall>j<k. b < contentLength (drop j c))"
  unfolding truncateContextIfNeeded_def by (rule truncateLoop_suffix)

theorem truncate_drops_oldest_until_within_budget_witness:
  "(0::int) \<le> 3 \<and>
   truncateContextIfNeeded
     [\<lparr>role = ''user'', content = ''hello''\<rparr>, \<lparr>role = ''assistant'', content = ''hi''\<rparr>] 3 =
     Some [\<lparr>role = ''assistant'', content = ''hi''\<rparr>]"
proof -
  let ?c = "[\<lparr>role = ''user'', content = ''hello''\<rparr>, \<lparr>role = ''assistant'', content = ''hi''\<rparr>]"
  have h: "(0::int) \<le> 3" by simp
  from truncate_drops_oldest_until_within_budget [OF h, of ?c]
  obtain k where k: "k \<le> length ?c" "truncateContextIfNeeded ?c 3 = Some (drop k ?c)"
    "contentLength (drop k ?c) \<le> 3" "\<forall>j<k. 3 < contentLength (drop j ?c)"
    by blast
  have "k \<noteq> 0"
  proof
    assume "k = 0"
    with k(3) have "contentLength ?c \<le> 3" by simp
    then show False by (simp add: contentLength_Cons contentLength_Nil)
  qed
  moreover have "k \<noteq> 2"
  proof
    assume "k = 2"
    then have "(1::nat) < k" by simp
    with k(4) have "3 < contentLength (drop 1 ?c)" by blast
    then show False by (simp add: contentLength_Cons contentLength_Nil)
  qed
  ultimately have "k = 1" using k(1) by simp
  with k(2) h show ?thesis by simp
qed

text \<open>
  Claim C2 as the specification words it fails: a conversation of one message longer than
  the budget comes back empty, the over-budget message is removed and not kept; and with a
  negative budget the call does not return.
\<close>

theorem truncate_removes_single_over_budget_message:
  "truncateContextIfNeeded [\<lparr>role = ''user'', content = ''hello''\<rparr>] 3 = Some [] \<and>
   truncateContextIfNeeded [\<lparr>role = ''user'', content = ''hello''\<rparr>] (- 1) = None"
  by (simp add: truncateContextIfNeeded_def truncateLoop_over truncateLoop_within
      truncateLoop_negative contentLength_Cons contentLength_Nil)

section \<open>Properties of the Concurrency Gate\<close>

lemma chatRequest_activeChats:
  "chatRequest config env session context w = (response, w') \<Longrightarrow> activeChats w' = activeChats w"
  by (auto simp: chatRequest_def Let_def split: FetchResult.splits if_splits option.splits sum.splits)

lemma chat_activeChats:
  "chat config env session input w = Some (r, w') \<Longrightarrow> activeChats w' = activeChats w"
  by (auto simp: chat_def split: sum.splits option.splits prod.splits dest: chatRequest_activeChats)

lemma remove1_in: "y \<in> set (remove1 x xs) \<Longrightarrow> y \<in> set xs"
  using set_remove1_subset [of x xs] by blast

lemma distinct_map_remove1: "distinct (map f xs) \<Longrightarrow> distinct (map f (remove1 x xs))"
proof (induction xs)
  case Nil
  then show ?case by simp
next
  case (Cons a xs)
  then have "f a \<notin> f ` set (remove1 x xs)" by (auto dest: remove1_in)
  with Cons show ?case by simp
qed

lemma remove1_others:
  "distinct (map f xs) \<Longrightarrow> x \<in> set xs \<Longrightarrow> y \<in> set (remove1 x xs) \<Longrightarrow> f y \<noteq> f x"
proof (induction xs)
  case Nil
  then show ?case by simp
next
  case (Cons a xs)
  show ?case
  proof (cases "x = a")
    case True
    with Cons.prems have "y \<in> set xs" "f a \<notin> f ` set xs" by simp_all
    with True show ?thesis by (metis imageI)
  next
    case False
    with Cons.prems have x: "x \<in> set xs" by simp
    from False Cons.prems(3) have "y = a \<or> y \<in> set (remove1 x xs)" by simp
    then show ?thesis
    proof
      assume "y = a"
      with Cons.prems(1) x show ?thesis by auto
    next
      assume "y \<in> set (remove1 x xs)"
      with Cons x show ?thesis by simp
    qed
  qed
qed

lemma step_gateInvariant:
  assumes "step config bots s s'" and "gateInvariant bots s"
  shows "gateInvariant bots s'"
  using assms
proof (cases rule: step.cases)
  case (arrive session w' b)
  from assms(2) have d: "distinct (map (userId \<circ> fst) (inflight s))"
    and f: "\<forall>r \<in> set (inflight s). activeChats (world s) (userId (fst r)) = Some True"
    and nb: "\<forall>u. activeChats (world s) u = Some True \<longrightarrow> u \<notin> bots"
    by (simp_all add: gateInvariant_def)
  show ?thesis
  proof (cases "userId session \<in> bots \<or> activeChats (world s) (userId session) = Some True")
    case True
    with arrive have "w' = world s" "inflight s' = inflight s"
      by (auto simp: middleware_begin_def split: if_splits)
    with arrive(1) assms(2) show ?thesis by (simp add: gateInvariant_def)
  next
    case False
    with arrive(2) have w': "w' = (world s)\<lparr>activeChats := (activeChats (world s))(userId session \<mapsto> True)\<rparr>"
      by (auto simp: middleware_begin_def Let_def split: if_splits)
    from False f have fresh: "userId session \<notin> (userId \<circ> fst) ` set (inflight s)" by auto
    have sub: "set (inflight s') \<subseteq> insert (session, removeTags (trim (sessionContent session))) (set (inflight s))"
      using arrive False by (auto simp: middleware_begin_def Let_def split: if_splits)
    have d': "distinct (map (userId \<circ> fst) (inflight s'))"
      using arrive False d fresh by (auto simp: middleware_begin_def Let_def split: if_splits)
    have f': "\<forall>r \<in> set (inflight s'). activeChats (world s') (userId (fst r)) = Some True"
      using sub f w' arrive(1) by auto
    have nb': "\<forall>u. activeChats (world s') u = Some True \<longrightarrow> u \<notin> bots"
      using nb w' arrive(1) False by auto
    from d' f' nb' show ?thesis by (simp add: gateInvariant_def)
  qed
next
  case (settle session input env response w')
  from settle(3) have ac: "activeChats w' = activeChats (world s)" by (rule chat_activeChats)
  have d: "distinct (map (userId \<circ> fst) (inflight s))" using assms(2) by (simp add: gateInvariant_def)
  have "\<forall>r \<in> set (remove1 (session, input) (inflight s)). userId (fst r) \<noteq> userId session"
    using remove1_others [OF d settle(2)] by auto
  moreover have "\<forall>r \<in> set (remove1 (session, input) (inflight s)). r \<in> set (inflight s)"
    by (auto dest: remove1_in)
  ultimately show ?thesis using assms(2) settle(1) ac d
    by (auto simp: gateInvariant_def middleware_end_def distinct_map_remove1)
next
  case (throw session input env e w')
  from throw(3) have ac: "activeChats w' = activeChats (world s)" by (rule chat_activeChats)
  have "\<forall>r \<in> set (remove1 (session, input) (inflight s)). r \<in> set (inflight s)"
    by (auto dest: remove1_in)
  then show ?thesis using assms(2) throw(1) ac
    by (auto simp: gateInvariant_def distinct_map_remove1)
next
  case (reset uid)
  then show ?thesis using assms(2) by (simp add: gateInvariant_def)
qed

lemma reachable_gateInvariant: "reachable config bots s \<Longrightarrow> gateInvariant bots s"
proof (induction rule: reachable.induct)
  case (initial w)
  then show ?case by (simp add: gateInvariant_def)
next
  case (after s s')
  then show ?case by (blast intro: step_gateInvariant)
qed

section \<open>Properties of the input normalisation\<close>

lemma removeTags_subset: "set (removeTags s) \<subseteq> set s"
proof (induction s rule: removeTags.induct)
  case 1
  then show ?case by simp
next
  case (2 c cs)
  show ?case
  proof (cases "c = CHR ''<'' \<and> CHR ''>'' \<in> set cs")
    case True
    have "set (tl (dropWhile (\<lambda>d. d \<noteq> CHR ''>'') cs)) \<subseteq> set cs"
      by (metis list.set_sel(2) set_dropWhileD subsetI tl_Nil)
    with True 2(1) show ?thesis by auto
  next
    case False
    with 2(2) show ?thesis by auto
  qed
qed

lemma removeTags_no_tag:
  "removeTags s = xs @ CHR ''<'' # ys \<Longrightarrow> CHR ''>'' \<notin> set ys"
proof (induction s arbitrary: xs rule: removeTags.induct)
  case 1
  then show ?case by simp
next
  case (2 c cs)
  show ?case
  proof (cases "c = CHR ''<'' \<and> CHR ''>'' \<in> set cs")
    case True
    with 2(1) 2(3) show ?thesis by simp
  next
    case False
    then have eq: "c # removeTags cs = xs @ CHR ''<'' # ys" using 2(3) by auto
    show ?thesis
    proof (cases xs)
      case Nil
      with eq have c: "c = CHR ''<''" and ys: "ys = removeTags cs" by simp_all
      with False have "CHR ''>'' \<notin> set cs" by simp
      with ys removeTags_subset [of cs] show ?thesis by blast
    next
      case (Cons x xs')
      with eq have "removeTags cs = xs' @ CHR ''<'' # ys" by simp
      with 2(2) False show ?thesis by blast
    qed
  qed
qed

lemma trim_no_outer_space:
  "trim s \<noteq> [] \<Longrightarrow> \<not> isWhiteSpace (hd (trim s)) \<and> \<not> isWhiteSpace (last (trim s))"
proof -
  assume ne: "trim s \<noteq> []"
  let ?d = "dropWhile isWhiteSpace s"
  let ?r = "dropWhile isWhiteSpace (rev ?d)"
  from ne have r: "?r \<noteq> []" by (simp add: trim_def)
  then have h: "\<not> isWhiteSpace (hd ?r)" by (rule hd_dropWhile)
  from r have l: "last (trim s) = hd ?r" by (simp add: trim_def last_rev)
  from r have d: "?d \<noteq> []" by (metis dropWhile.simps(1) rev_is_Nil_conv)
  then have hd_d: "\<not> isWhiteSpace (hd ?d)" by (rule hd_dropWhile)
  obtain k where k: "?r = drop k (rev ?d)" by (metis dropWhile_eq_drop)
  have "last ?r = last (rev ?d)" using r k by (metis last_drop drop_eq_Nil not_le)
  then have "hd (trim s) = hd ?d" using r d by (simp add: trim_def hd_rev last_rev)
  with hd_d h l show ?thesis by simp
qed

text \<open>
  Claim C9. Whenever the middleware calls \<open>chat\<close>, the text it hands over is the message
  content trimmed of leading and trailing white space and then stripped of every tag (no
  less-than sign of it is followed by a greater-than sign any more), and it is not empty;
  a message whose text is empty after this normalisation never reaches \<open>chat\<close>; and a message
  that passes the self filter and the in-flight flag with a text that is not empty does
  reach \<open>chat\<close> with exactly that text.
\<close>

theorem normalised_input_reaches_chat:
  "(middleware_begin bots w session = (w', CallChat input) \<longrightarrow>
      input = removeTags (trim (sessionContent session)) \<and> input \<noteq> [] \<and>
      (\<forall>xs ys. input = xs @ CHR ''<'' # ys \<longrightarrow> CHR ''>'' \<notin> set ys)) \<and>
   (removeTags (trim (sessionContent session)) = [] \<longrightarrow>
      (\<forall>text. snd (middleware_begin bots w session) \<noteq> CallChat text)) \<and>
   (userId session \<notin> bots \<and> activeChats w (userId session) \<noteq> Some True \<and>
    removeTags (trim (sessionContent session)) \<noteq> [] \<longrightarrow>
      snd (middleware_begin bots w session) = CallChat (removeTags (trim (sessionContent session))))"
  by (auto simp: middleware_begin_def Let_def dest: removeTags_no_tag split: if_splits)

theorem normalised_input_reaches_chat_witness:
  "middleware_begin {}
     \<lparr>activeChats = Map.empty, files = Map.empty, database = Map.empty\<rparr>
     \<lparr>userId = ''u'', username = ''u'', platform = ''discord'', sessionContent = ''  <b>hi</b> ''\<rparr> =
   (\<lparr>activeChats = [''u'' \<mapsto> True], files = Map.empty, database = Map.empty\<rparr>, CallChat ''hi'') \<and>
   removeTags (trim ''  <b>hi</b> '') = ''hi'' \<and>
   removeTags (trim '' <br> '') = [] \<and>
   snd (middleware_begin {}
     \<lparr>activeChats = Map.empty, files = Map.empty, database = Map.empty\<rparr>
     \<lparr>userId = ''u'', username = ''u'', platform = ''discord'', sessionContent = '' <br> ''\<rparr>) = PassNext"
  using normalised_input_reaches_chat [of "{}"
     "\<lparr>activeChats = Map.empty, files = Map.empty, database = Map.empty\<rparr>"
     "\<lparr>userId = ''u'', username = ''u'', platform = ''discord'', sessionContent = ''  <b>hi</b> ''\<rparr>"
     "\<lparr>activeChats = [''u'' \<mapsto> True], files = Map.empty, database = Map.empty\<rparr>" "''hi''"]
  by (simp add: middleware_begin_def trim_def isWhiteSpace_def Let_def)

section \<open>Claims about the Concurrency Gate and the Dispatcher\<close>

text \<open>
  Claim C8. In every state the plugin reaches, no two \<open>chat\<close> runs in flight are of the same
  user; a message of a user whose in-flight flag is set is answered with the busy notice
  at once, the state is left as it is and \<open>chat\<close> is not called; and a message of a user
  whose flag is not set (and that is not one of the bot's own, which the middleware passes
  on before it looks at the flag) finds no run of that user in flight and has the flag set
  for it.
\<close>

theorem gate_single_flight:
  "reachable config bots s \<Longrightarrow>
   distinct (map (userId \<circ> fst) (inflight s)) \<and>
   (\<forall>session. activeChats (world s) (userId session) = Some True \<longrightarrow>
      middleware_begin bots (world s) session = (world s, Send Busy)) \<and>
   (\<forall>session. userId session \<notin> bots \<and> activeChats (world s) (userId session) \<noteq> Some True \<longrightarrow>
      userId session \<notin> (userId \<circ> fst) ` set (inflight s) \<and>
      activeChats (fst (middleware_begin bots (world s) session)) (userId session) = Some True)"
proof -
  assume "reachable config bots s"
  then have inv: "gateInvariant bots s" by (rule reachable_gateInvariant)
  then have d: "distinct (map (userId \<circ> fst) (inflight s))"
    and f: "\<forall>r \<in> set (inflight s). activeChats (world s) (userId (fst r)) = Some True"
    and nb: "\<forall>u. activeChats (world s) u = Some True \<longrightarrow> u \<notin> bots"
    by (simp_all add: gateInvariant_def)
  have busy: "\<forall>session. activeChats (world s) (userId session) = Some True \<longrightarrow>
      middleware_begin bots (world s) session = (world s, Send Busy)"
    using nb by (simp add: middleware_begin_def)
  have grant: "\<forall>session. userId session \<notin> bots \<and> activeChats (world s) (userId session) \<noteq> Some True \<longrightarrow>
      userId session \<notin> (userId \<circ> fst) ` set (inflight s) \<and>
      activeChats (fst (middleware_begin bots (world s) session)) (userId session) = Some True"
    using f by (auto simp: middleware_begin_def Let_def)
  from d busy grant show ?thesis by blast
qed

theorem gate_single_flight_witness:
  "reachable \<lparr>model = ''gpt-4'', customModel = None, systemPrompt = None, maxTokens = 3000\<rparr> {}
     \<lparr>world = \<lparr>activeChats = [''u'' \<mapsto> True], files = Map.empty, database = Map.empty\<rparr>,
      inflight = [(\<lparr>userId = ''u'', username = ''u'', platform = ''discord'', sessionContent = ''hello''\<rparr>, ''hello'')]\<rparr> \<and>
   middleware_begin {} \<lparr>activeChats = [''u'' \<mapsto> True], files = Map.empty, database = Map.empty\<rparr>
     \<lparr>userId = ''u'', username = ''u'', platform = ''discord'', sessionContent = ''again''\<rparr> =
     (\<lparr>activeChats = [''u'' \<mapsto> True], files = Map.empty, database = Map.empty\<rparr>, Send Busy) \<and>
   ''v'' \<notin> (userId \<circ> fst) ` set [(\<lparr>userId = ''u'', username = ''u'', platform = ''discord'', sessionContent = ''hello''\<rparr>, ''hello'')] \<and>
   activeChats (fst (middleware_begin {} \<lparr>activeChats = [''u'' \<mapsto> True], files = Map.empty, database = Map.empty\<rparr>
     \<lparr>userId = ''v'', username = ''v'', platform = ''discord'', sessionContent = ''hi''\<rparr>)) ''v'' = Some True"
proof -
  let ?config = "\<lparr>model = ''gpt-4'', customModel = None, systemPrompt = None, maxTokens = 3000\<rparr>"
  let ?absent = "\<lparr>activeChats = Map.empty, files = Map.empty, database = Map.empty\<rparr>"
  let ?w1 = "\<lparr>activeChats = [''u'' \<mapsto> True], files = Map.empty, database = Map.empty\<rparr>"
  let ?s1 = "\<lparr>userId = ''u'', username = ''u'', platform = ''discord'', sessionContent = ''hello''\<rparr>"
  let ?s2 = "\<lparr>userId = ''u'', username = ''u'', platform = ''discord'', sessionContent = ''again''\<rparr>"
  let ?s3 = "\<lparr>userId = ''v'', username = ''v'', platform = ''discord'', sessionContent = ''hi''\<rparr>"
  have r0: "reachable ?config {} \<lparr>world = ?absent, inflight = []\<rparr>"
    by (rule reachable.initial) simp
  have b: "middleware_begin {} (world \<lparr>world = ?absent, inflight = []\<rparr>) ?s1 = (?w1, CallChat ''hello'')"
    by (simp add: middleware_begin_def trim_def isWhiteSpace_def Let_def)
  have "step ?config {} \<lparr>world = ?absent, inflight = []\<rparr>
     \<lparr>world = ?w1, inflight = (case CallChat ''hello'' of CallChat input \<Rightarrow> (?s1, input) # inflight \<lparr>world = ?absent, inflight = []\<rparr> | _ \<Rightarrow> inflight \<lparr>world = ?absent, inflight = []\<rparr>)\<rparr>"
    by (rule step.arrive [OF b])
  then have st: "step ?config {} \<lparr>world = ?absent, inflight = []\<rparr> \<lparr>world = ?w1, inflight = [(?s1, ''hello'')]\<rparr>"
    by simp
  have r1: "reachable ?config {} \<lparr>world = ?w1, inflight = [(?s1, ''hello'')]\<rparr>"
    by (rule reachable.after [OF r0 st])
  note g = gate_single_flight [OF r1]
  from g have busy: "\<forall>session. activeChats ?w1 (userId session) = Some True \<longrightarrow>
      middleware_begin {} ?w1 session = (?w1, Send Busy)"
    by simp
  have "activeChats ?w1 (userId ?s2) = Some True" by simp
  with busy have "middleware_begin {} ?w1 ?s2 = (?w1, Send Busy)" by blast
  moreover from g have grant: "\<forall>session. userId session \<notin> {} \<and> activeChats ?w1 (userId session) \<noteq> Some True \<longrightarrow>
      userId session \<notin> (userId \<circ> fst) ` set [(?s1, ''hello'')] \<and>
      activeChats (fst (middleware_begin {} ?w1 session)) (userId session) = Some True"
    by simp
  have "userId ?s3 \<notin> {} \<and> activeChats ?w1 (userId ?s3) \<noteq> Some True" by simp
  with grant have "userId ?s3 \<notin> (userId \<circ> fst) ` set [(?s1, ''hello'')] \<and>
      activeChats (fst (middleware_begin {} ?w1 ?s3)) (userId ?s3) = Some True"
    by blast
  ultimately show ?thesis using r1 by simp
qed

text \<open>
  Claim C1 at its failing input. User \<open>u\<close>, with no flag set, sends a message that is
  one image element and no text: the middleware sets the flag, finds the normalised text
  empty and returns \<open>next()\<close> with the flag still set. The next message of \<open>u\<close>, sent after the first one has
  been handled to its end, gets the busy notice instead of an acquisition.
\<close>

theorem gate_flag_stays_set_after_empty_input:
  "middleware config {} env
     \<lparr>userId = ''u'', username = ''u'', platform = ''discord'', sessionContent = ''<img/>''\<rparr>
     \<lparr>activeChats = Map.empty, files = Map.empty, database = Map.empty\<rparr> =
     Some (\<lparr>activeChats = [''u'' \<mapsto> True], files = Map.empty, database = Map.empty\<rparr>, Passed) \<and>
   middleware config {} env
     \<lparr>userId = ''u'', username = ''u'', platform = ''discord'', sessionContent = ''hello''\<rparr>
     \<lparr>activeChats = [''u'' \<mapsto> True], files = Map.empty, database = Map.empty\<rparr> =
     Some (\<lparr>activeChats = [''u'' \<mapsto> True], files = Map.empty, database = Map.empty\<rparr>, Replied Busy)"
  by (simp add: middleware_def middleware_begin_def trim_def isWhiteSpace_def Let_def)

text \<open>The flag also stays set when \<open>chat\<close> throws: here the user's record cannot be read.\<close>

lemma gate_flag_stays_set_after_throw:
  "middleware config {} env
     \<lparr>userId = ''u'', username = ''u'', platform = ''discord'', sessionContent = ''hello''\<rparr>
     \<lparr>activeChats = Map.empty, files = [''u'' \<mapsto> Unreadable], database = Map.empty\<rparr> =
     Some (\<lparr>activeChats = [''u'' \<mapsto> True], files = [''u'' \<mapsto> Unreadable], database = Map.empty\<rparr>,
           Rejected ReadFailure)"
  by (simp add: middleware_def middleware_begin_def trim_def isWhiteSpace_def Let_def chat_def
      loadContext_def)

section \<open>Properties of the Request Orchestrator\<close>

lemma chat_run:
  "loadContext (files w) (userId session) = Inr loaded \<Longrightarrow>
   prepareContext config loaded input = Some (Inr context) \<Longrightarrow>
   chat config env session input w =
     Some (Inr (fst (chatRequest config env session context w)),
           snd (chatRequest config env session context w))"
  by (simp add: chat_def split: prod.splits)

lemma chat_throws:
  "loadContext (files w) (userId session) = Inl e \<Longrightarrow>
   chat config env session input w = Some (Inl e, w)"
  by (simp add: chat_def)

lemma chat_throws_preparing:
  "loadContext (files w) (userId session) = Inr loaded \<Longrightarrow>
   prepareContext config loaded input = Some (Inl e) \<Longrightarrow>
   chat config env session input w = Some (Inl e, w)"
  by (simp add: chat_def)

lemma messagesOf_Msg: "messagesOf (map Msg ms) = Some ms"
  by (induction ms) simp_all

lemma messagesOf_append:
  "messagesOf (xs @ ys) =
     (case messagesOf xs of
        None \<Rightarrow> None
      | Some ms \<Rightarrow> (case messagesOf ys of None \<Rightarrow> None | Some ns \<Rightarrow> Some (ms @ ns)))"
  by (induction xs rule: messagesOf.induct) (simp_all split: option.splits)

lemma messagesOf_NoContent: "NoContent r \<in> set entries \<Longrightarrow> messagesOf entries = None"
  by (induction entries rule: messagesOf.induct) (auto split: option.splits)

text \<open>On a record of well-formed messages the preparation is the one on the messages.\<close>

lemma prepareContext_Msg:
  "prepareContext config (Array (map Msg loaded)) input =
     (case truncateContextIfNeeded
             ((case loaded of [] \<Rightarrow> [] | first # rest \<Rightarrow>
                 if role first = ''system'' then rest else loaded) @
              [\<lparr>role = ''user'', content = input\<rparr>]) (maxTokens config) of
        None \<Rightarrow> None
      | Some kept \<Rightarrow> Some (Inr (systemMessage config @ kept)))"
proof -
  have "messagesOf ((case map Msg loaded of [] \<Rightarrow> [] | first # rest \<Rightarrow>
            if entryRole first = ''system'' then rest else map Msg loaded) @
          [Msg \<lparr>role = ''user'', content = input\<rparr>]) =
        Some ((case loaded of [] \<Rightarrow> [] | first # rest \<Rightarrow>
                 if role first = ''system'' then rest else loaded) @
              [\<lparr>role = ''user'', content = input\<rparr>])"
    by (cases loaded) (simp_all add: messagesOf_append messagesOf_Msg entryRole_def)
  then show ?thesis by (simp add: prepareContext_def Let_def)
qed

lemma chatRequest_not_ok:
  "fetch env (requestBody config context) = Response False body \<Longrightarrow>
   chatRequest config env session context w = ([], w)"
  by (simp add: chatRequest_def)

lemma chatRequest_no_body:
  "fetch env (requestBody config context) = Response True None \<Longrightarrow>
   chatRequest config env session context w = ([], w)"
  by (simp add: chatRequest_def)

lemma chatRequest_no_text:
  "fetch env (requestBody config context) = Response True (Some data) \<Longrightarrow>
   replyText data = None \<Longrightarrow>
   chatRequest config env session context w =
     ([], w\<lparr>database := updateTokenUsage env session (usage data) (database w)\<rparr>)"
  by (simp add: chatRequest_def)

lemma chatRequest_text:
  "fetch env (requestBody config context) = Response True (Some data) \<Longrightarrow>
   replyText data = Some text \<Longrightarrow>
   chatRequest config env session context w =
     (if writeFileSync_ok env
      then (text, w\<lparr>database := updateTokenUsage env session (usage data) (database w),
                     files := (files w)(userId session \<mapsto>
                        Json (Array (map Msg
                          (context @ [\<lparr>role = ''assistant'', content = text\<rparr>]))))\<rparr>)
      else ([], w\<lparr>database := updateTokenUsage env session (usage data) (database w)\<rparr>))"
  by (simp add: chatRequest_def saveContext_def)

lemma updateTokenUsage_no_usage: "updateTokenUsage env session None db = db"
  by (simp add: updateTokenUsage_def computeNewUsage_def split: prod.splits sum.splits)

lemma prepareContext_total:
  assumes "0 \<le> maxTokens config"
  shows "\<exists>k kept.
      kept = drop k ((case loaded of [] \<Rightarrow> [] | first # rest \<Rightarrow>
                        if role first = ''system'' then rest else loaded) @
                     [\<lparr>role = ''user'', content = input\<rparr>]) \<and>
      truncateContextIfNeeded
        ((case loaded of [] \<Rightarrow> [] | first # rest \<Rightarrow>
            if role first = ''system'' then rest else loaded) @
         [\<lparr>role = ''user'', content = input\<rparr>]) (maxTokens config) = Some kept \<and>
      contentLength kept \<le> maxTokens config \<and>
      prepareContext config (Array (map Msg loaded)) input =
        Some (Inr (systemMessage config @ kept))"
proof -
  let ?c = "(case loaded of [] \<Rightarrow> [] | first # rest \<Rightarrow>
                if role first = ''system'' then rest else loaded) @
            [\<lparr>role = ''user'', content = input\<rparr>]"
  from truncateLoop_suffix [OF assms, of ?c]
  obtain k where k: "truncateLoop ?c (maxTokens config) = Some (drop k ?c)"
    "contentLength (drop k ?c) \<le> maxTokens config"
    by blast
  then have "prepareContext config (Array (map Msg loaded)) input =
      Some (Inr (systemMessage config @ drop k ?c))"
    by (simp add: prepareContext_Msg truncateContextIfNeeded_def)
  with k show ?thesis
    unfolding truncateContextIfNeeded_def by blast
qed

lemma systemMessage_eq:
  "systemMessage config =
     (if truthy (systemPrompt config)
      then [\<lparr>role = ''system'', content = the (systemPrompt config) @ [CHR 0x0A, CHR 0x0A]\<rparr>]
      else [])"
  by (simp add: systemMessage_def truthy_def split: option.splits)

text \<open>
  Claim C4. In every turn whose conversation record loads as a sequence of messages (with a
  budget that is not negative, as the configuration schema has it): a leading system message of the loaded
  conversation is dropped and the user message is appended; the truncation runs on that
  list alone and keeps a suffix \<open>kept\<close> of it whose content lengths are within the budget,
  the system prompt being no part of what is measured or cut; only then the system message
  of the current configuration (the prompt followed by two line feeds) is put in front,
  when a prompt is configured and not empty. This list is the request's \<open>messages\<close>, and when
  the turn succeeds the persisted conversation is this list followed by the assistant's
  reply: it starts with the current prompt, never with the one that was loaded.
\<close>

theorem system_prompt_prepended_after_truncation:
  assumes "0 \<le> maxTokens config"
    and "loadContext (files w) (userId session) = Inr (Array (map Msg loaded))"
  shows "\<exists>k kept.
      kept = drop k ((case loaded of [] \<Rightarrow> [] | first # rest \<Rightarrow>
                        if role first = ''system'' then rest else loaded) @
                     [\<lparr>role = ''user'', content = input\<rparr>]) \<and>
      truncateContextIfNeeded
        ((case loaded of [] \<Rightarrow> [] | first # rest \<Rightarrow>
            if role first = ''system'' then rest else loaded) @
         [\<lparr>role = ''user'', content = input\<rparr>]) (maxTokens config) = Some kept \<and>
      contentLength kept \<le> maxTokens config \<and>
      prepareContext config (Array (map Msg loaded)) input =
        Some (Inr (systemMessage config @ kept)) \<and>
      systemMessage config =
        (if truthy (systemPrompt config)
         then [\<lparr>role = ''system'', content = the (systemPrompt config) @ [CHR 0x0A, CHR 0x0A]\<rparr>]
         else []) \<and>
      (\<forall>data text.
         fetch env (requestBody config (systemMessage config @ kept)) = Response True (Some data) \<and>
         replyText data = Some text \<and> writeFileSync_ok env \<longrightarrow>
         (\<exists>w'. chat config env session input w = Some (Inr text, w') \<and>
               files w' (userId session) =
                 Some (Json (Array (map Msg (systemMessage config @ kept @
                             [\<lparr>role = ''assistant'', content = text\<rparr>]))))))"
proof -
  from prepareContext_total [OF assms(1), of loaded input]
  obtain k kept where k:
    "kept = drop k ((case loaded of [] \<Rightarrow> [] | first # rest \<Rightarrow>
                        if role first = ''system'' then rest else loaded) @
                     [\<lparr>role = ''user'', content = input\<rparr>])"
    "truncateContextIfNeeded
        ((case loaded of [] \<Rightarrow> [] | first # rest \<Rightarrow>
            if role first = ''system'' then rest else loaded) @
         [\<lparr>role = ''user'', content = input\<rparr>]) (maxTokens config) = Some kept"
    "contentLength kept \<le> maxTokens config"
    "prepareContext config (Array (map Msg loaded)) input =
        Some (Inr (systemMessage config @ kept))"
    by blast
  have "\<exists>w'. chat config env session input w = Some (Inr reply, w') \<and>
               files w' (userId session) =
                 Some (Json (Array (map Msg (systemMessage config @ kept @
                             [\<lparr>role = ''assistant'', content = reply\<rparr>]))))"
    if "fetch env (requestBody config (systemMessage config @ kept)) = Response True (Some data)"
      and "replyText data = Some reply" and "writeFileSync_ok env" for data reply
    using chat_run [OF assms(2) k(4), of env] chatRequest_text [OF that(1) that(2), of session w] that(3)
    by simp
  with k systemMessage_eq [of config] show ?thesis by blast
qed


theorem system_prompt_prepended_after_truncation_witness:
  "(0::int) \<le> 16 \<and>
   loadContext [''u'' \<mapsto> Json (Array (map Msg [\<lparr>role = ''system'', content = ''OLD''\<rparr>,
                                 \<lparr>role = ''user'', content = ''0123456789''\<rparr>,
                                 \<lparr>role = ''assistant'', content = ''abcdefgh''\<rparr>]))] ''u'' =
     Inr (Array (map Msg [\<lparr>role = ''system'', content = ''OLD''\<rparr>,
          \<lparr>role = ''user'', content = ''0123456789''\<rparr>,
          \<lparr>role = ''assistant'', content = ''abcdefgh''\<rparr>])) \<and>
   (\<exists>w'. chat \<lparr>model = ''gpt-4'', customModel = None,
                 systemPrompt = Some ''Be brief and kind.'', maxTokens = 16\<rparr>
              \<lparr>fetch = (answering (Response True
                          (Some \<lparr>usage = None,
                                 choices = Some [\<lparr>message = Some \<lparr>role = ''assistant'', content = ''hi''\<rparr>\<rparr>]\<rparr>))),
               writeFileSync_ok = True, database_get_ok = True, database_upsert_ok = True,
               larkUser = None\<rparr>
              \<lparr>userId = ''u'', username = ''alice'', platform = ''discord'', sessionContent = ''hello''\<rparr>
              ''hello''
              \<lparr>activeChats = [''u'' \<mapsto> True],
               files = [''u'' \<mapsto> Json (Array (map Msg [\<lparr>role = ''system'', content = ''OLD''\<rparr>,
                                        \<lparr>role = ''user'', content = ''0123456789''\<rparr>,
                                        \<lparr>role = ''assistant'', content = ''abcdefgh''\<rparr>]))],
               database = Map.empty\<rparr> = Some (Inr ''hi'', w') \<and>
         files w' ''u'' =
           Some (Json (Array (map Msg [\<lparr>role = ''system'', content = ''Be brief and kind.'' @ [CHR 0x0A, CHR 0x0A]\<rparr>,
                       \<lparr>role = ''assistant'', content = ''abcdefgh''\<rparr>,
                       \<lparr>role = ''user'', content = ''hello''\<rparr>,
                       \<lparr>role = ''assistant'', content = ''hi''\<rparr>]))))"
proof -
  let ?config = "\<lparr>model = ''gpt-4'', customModel = None,
                 systemPrompt = Some ''Be brief and kind.'', maxTokens = 16\<rparr>"
  let ?data = "\<lparr>usage = None,
      choices = Some [\<lparr>message = Some \<lparr>role = ''assistant'', content = ''hi''\<rparr>\<rparr>]\<rparr>"
  let ?env = "\<lparr>fetch = (answering (Response True (Some ?data))),
               writeFileSync_ok = True, database_get_ok = True, database_upsert_ok = True,
               larkUser = None\<rparr>"
  let ?session = "\<lparr>userId = ''u'', username = ''alice'', platform = ''discord'', sessionContent = ''hello''\<rparr>"
  let ?loaded = "[\<lparr>role = ''system'', content = ''OLD''\<rparr>,
                  \<lparr>role = ''user'', content = ''0123456789''\<rparr>,
                  \<lparr>role = ''assistant'', content = ''abcdefgh''\<rparr>]"
  let ?w = "\<lparr>activeChats = [''u'' \<mapsto> True], files = [''u'' \<mapsto> Json (Array (map Msg ?loaded))],
             database = Map.empty\<rparr>"
  let ?kept = "[\<lparr>role = ''assistant'', content = ''abcdefgh''\<rparr>, \<lparr>role = ''user'', content = ''hello''\<rparr>]"
  have h1: "0 \<le> maxTokens ?config" by simp
  have l: "loadContext [''u'' \<mapsto> Json (Array (map Msg ?loaded))] ''u'' = Inr (Array (map Msg ?loaded))"
    by (simp add: loadContext_def)
  then have h2: "loadContext (files ?w) (userId ?session) = Inr (Array (map Msg ?loaded))" by simp
  have t: "truncateContextIfNeeded
        ((case ?loaded of [] \<Rightarrow> [] | first # rest \<Rightarrow>
            if role first = ''system'' then rest else ?loaded) @
         [\<lparr>role = ''user'', content = ''hello''\<rparr>]) (maxTokens ?config) = Some ?kept"
    by (simp add: truncateContextIfNeeded_def truncateLoop_over truncateLoop_within
        contentLength_Cons contentLength_Nil)
  from system_prompt_prepended_after_truncation [OF h1 h2, of "''hello''" ?env]
  obtain kept where k:
    "truncateContextIfNeeded
        ((case ?loaded of [] \<Rightarrow> [] | first # rest \<Rightarrow>
            if role first = ''system'' then rest else ?loaded) @
         [\<lparr>role = ''user'', content = ''hello''\<rparr>]) (maxTokens ?config) = Some kept"
    "\<forall>data reply.
         fetch ?env (requestBody ?config (systemMessage ?config @ kept)) = Response True (Some data) \<and>
         replyText data = Some reply \<and> writeFileSync_ok ?env \<longrightarrow>
         (\<exists>w'. chat ?config ?env ?session ''hello'' ?w = Some (Inr reply, w') \<and>
               files w' (userId ?session) =
                 Some (Json (Array (map Msg (systemMessage ?config @ kept @
                             [\<lparr>role = ''assistant'', content = reply\<rparr>])))))"
    by blast
  from k(1) t have kept: "kept = ?kept" by simp
  have "fetch ?env (requestBody ?config (systemMessage ?config @ kept)) = Response True (Some ?data) \<and>
         replyText ?data = Some ''hi'' \<and> writeFileSync_ok ?env"
    by (simp add: replyText_def)
  with k(2) have "\<exists>w'. chat ?config ?env ?session ''hello'' ?w = Some (Inr ''hi'', w') \<and>
               files w' (userId ?session) =
                 Some (Json (Array (map Msg (systemMessage ?config @ kept @
                             [\<lparr>role = ''assistant'', content = ''hi''\<rparr>]))))"
    by blast
  then have "\<exists>w'. chat ?config ?env ?session ''hello'' ?w = Some (Inr ''hi'', w') \<and>
               files w' ''u'' =
           Some (Json (Array (map Msg [\<lparr>role = ''system'', content = ''Be brief and kind.'' @ [CHR 0x0A, CHR 0x0A]\<rparr>,
                       \<lparr>role = ''assistant'', content = ''abcdefgh''\<rparr>,
                       \<lparr>role = ''user'', content = ''hello''\<rparr>,
                       \<lparr>role = ''assistant'', content = ''hi''\<rparr>])))"
    by (simp add: kept systemMessage_def)
  with l show ?thesis by simp
qed

section \<open>Claims about the failures of a turn\<close>

lemma replyText_no_choices: "choices data = None \<Longrightarrow> replyText data = None"
  by (simp add: replyText_def)

text \<open>With a budget that is not negative, \<open>chat\<close> returns whenever the record is absent or
  holds an array of well-formed messages.\<close>

lemma chat_returns:
  assumes "0 \<le> maxTokens config"
    and "files w (userId session) = None \<or>
         files w (userId session) = Some (Json (Array (map Msg stored)))"
  shows "\<exists>response w'. chat config env session input w = Some (Inr response, w')"
proof -
  from assms(2) have "\<exists>loaded. loadContext (files w) (userId session) = Inr (Array (map Msg loaded))"
  proof
    assume "files w (userId session) = None"
    then have "loadContext (files w) (userId session) = Inr (Array (map Msg []))"
      by (simp add: loadContext_def)
    then show ?thesis ..
  next
    assume "files w (userId session) = Some (Json (Array (map Msg stored)))"
    then have "loadContext (files w) (userId session) = Inr (Array (map Msg stored))"
      by (simp add: loadContext_def)
    then show ?thesis ..
  qed
  then obtain loaded where l: "loadContext (files w) (userId session) = Inr (Array (map Msg loaded))" ..
  from prepareContext_total [OF assms(1), of loaded input]
  obtain prepared where "prepareContext config (Array (map Msg loaded)) input = Some (Inr prepared)"
    by blast
  from chat_run [OF l this] show ?thesis by blast
qed

text \<open>\<open>chat\<close> throws on a record that is no array, and on an array that, after the drop of a
  leading system entry, has an entry without content.\<close>

lemma chat_throws_not_array:
  "files w (userId session) = Some (Json NotArray) \<Longrightarrow>
   chat config env session input w = Some (Inl TypeError, w)"
  by (simp add: chat_def loadContext_def prepareContext_def)

lemma chat_throws_no_content:
  assumes "files w (userId session) = Some (Json (Array entries))"
    and "NoContent r \<in> set (case entries of [] \<Rightarrow> [] | first # rest \<Rightarrow>
                               if entryRole first = ''system'' then rest else entries)"
  shows "chat config env session input w = Some (Inl TypeError, w)"
proof -
  from assms(2) have "messagesOf ((case entries of [] \<Rightarrow> [] | first # rest \<Rightarrow>
          if entryRole first = ''system'' then rest else entries) @
        [Msg \<lparr>role = ''user'', content = input\<rparr>]) = None"
    by (intro messagesOf_NoContent [of r]) simp
  then have "prepareContext config (Array entries) input = Some (Inl TypeError)"
    by (simp add: prepareContext_def Let_def)
  moreover from assms(1) have "loadContext (files w) (userId session) = Inr (Array entries)"
    by (simp add: loadContext_def)
  ultimately show ?thesis by (rule chat_throws_preparing [rotated])
qed

text \<open>
  Claim C3, as the code has it. In a turn whose record loads and whose request is prepared:
  when the endpoint answers with a status that is not 2xx, \<open>chat\<close> returns the empty string
  and the whole state (the persisted conversation and the usage table) is as before; the
  same holds when the body cannot be parsed at all; and when the body is parsed but holds
  no reply text (\<open>choices\<close> missing or empty, or a choice without \<open>message\<close>), \<open>chat\<close> returns
  the empty string and the persisted conversations are as before, and so is the usage table
  when the body has no \<open>usage\<close> object.
\<close>

theorem remote_api_error_persists_no_context:
  assumes "loadContext (files w) (userId session) = Inr loaded"
    and "prepareContext config loaded input = Some (Inr context)"
  shows "(fetch env (requestBody config context) = Response False body \<longrightarrow>
            chat config env session input w = Some (Inr [], w)) \<and>
         (fetch env (requestBody config context) = Response True None \<longrightarrow>
            chat config env session input w = Some (Inr [], w)) \<and>
         (fetch env (requestBody config context) = Response True (Some data) \<and>
          replyText data = None \<longrightarrow>
            (\<exists>w'. chat config env session input w = Some (Inr [], w') \<and> files w' = files w \<and>
                  (usage data = None \<longrightarrow> w' = w)))"
  using chat_run [OF assms, of env]
  by (auto simp: chatRequest_not_ok chatRequest_no_body chatRequest_no_text
      updateTokenUsage_no_usage)

theorem remote_api_error_persists_no_context_witness:
  "loadContext Map.empty ''u'' = Inr (Array []) \<and>
   prepareContext \<lparr>model = ''gpt-4'', customModel = None, systemPrompt = None, maxTokens = 3000\<rparr>
     (Array []) ''hello'' = Some (Inr [\<lparr>role = ''user'', content = ''hello''\<rparr>]) \<and>
   chat \<lparr>model = ''gpt-4'', customModel = None, systemPrompt = None, maxTokens = 3000\<rparr>
     \<lparr>fetch = (answering (Response False None)),
      writeFileSync_ok = True, database_get_ok = True, database_upsert_ok = True, larkUser = None\<rparr>
     \<lparr>userId = ''u'', username = ''alice'', platform = ''discord'', sessionContent = ''hello''\<rparr>
     ''hello''
     \<lparr>activeChats = [''u'' \<mapsto> True], files = Map.empty, database = Map.empty\<rparr> =
     Some (Inr [], \<lparr>activeChats = [''u'' \<mapsto> True], files = Map.empty, database = Map.empty\<rparr>) \<and>
   chat \<lparr>model = ''gpt-4'', customModel = None, systemPrompt = None, maxTokens = 3000\<rparr>
     \<lparr>fetch = (answering (Response True None)),
      writeFileSync_ok = True, database_get_ok = True, database_upsert_ok = True, larkUser = None\<rparr>
     \<lparr>userId = ''u'', username = ''alice'', platform = ''discord'', sessionContent = ''hello''\<rparr>
     ''hello''
     \<lparr>activeChats = [''u'' \<mapsto> True], files = Map.empty, database = Map.empty\<rparr> =
     Some (Inr [], \<lparr>activeChats = [''u'' \<mapsto> True], files = Map.empty, database = Map.empty\<rparr>) \<and>
   replyText \<lparr>usage = None, choices = None\<rparr> = None \<and>
   chat \<lparr>model = ''gpt-4'', customModel = None, systemPrompt = None, maxTokens = 3000\<rparr>
     \<lparr>fetch = (answering (Response True (Some \<lparr>usage = None, choices = None\<rparr>))),
      writeFileSync_ok = True, database_get_ok = True, database_upsert_ok = True, larkUser = None\<rparr>
     \<lparr>userId = ''u'', username = ''alice'', platform = ''discord'', sessionContent = ''hello''\<rparr>
     ''hello''
     \<lparr>activeChats = [''u'' \<mapsto> True], files = Map.empty, database = Map.empty\<rparr> =
     Some (Inr [], \<lparr>activeChats = [''u'' \<mapsto> True], files = Map.empty, database = Map.empty\<rparr>)"
proof -
  let ?config = "\<lparr>model = ''gpt-4'', customModel = None, systemPrompt = None, maxTokens = 3000\<rparr>"
  let ?session = "\<lparr>userId = ''u'', username = ''alice'', platform = ''discord'', sessionContent = ''hello''\<rparr>"
  let ?w = "\<lparr>activeChats = [''u'' \<mapsto> True], files = Map.empty, database = Map.empty\<rparr>"
  let ?prepared = "[\<lparr>role = ''user'', content = ''hello''\<rparr>]"
  let ?data = "\<lparr>usage = None, choices = None\<rparr>"
  let ?env = "\<lambda>result. \<lparr>fetch = (answering result),
      writeFileSync_ok = True, database_get_ok = True, database_upsert_ok = True, larkUser = None\<rparr>"
  have l0: "loadContext Map.empty ''u'' = Inr (Array [])" by (simp add: loadContext_def)
  then have l: "loadContext (files ?w) (userId ?session) = Inr (Array [])" by simp
  have p: "prepareContext ?config (Array []) ''hello'' = Some (Inr ?prepared)"
    by (simp add: prepareContext_def Let_def truncateContextIfNeeded_def truncateLoop_within
        contentLength_Cons contentLength_Nil systemMessage_def)
  have r: "replyText ?data = None" by (simp add: replyText_def)
  have a: "chat ?config (?env (Response False None)) ?session ''hello'' ?w = Some (Inr [], ?w)"
    using remote_api_error_persists_no_context [OF l p, of "?env (Response False None)" None]
    by simp
  have b: "chat ?config (?env (Response True None)) ?session ''hello'' ?w = Some (Inr [], ?w)"
    using remote_api_error_persists_no_context [OF l p, of "?env (Response True None)"]
    by simp
  have c: "chat ?config (?env (Response True (Some ?data))) ?session ''hello'' ?w = Some (Inr [], ?w)"
    using remote_api_error_persists_no_context [OF l p, of "?env (Response True (Some ?data))" _ ?data] r
    by auto
  from l0 p a b r c show ?thesis by simp
qed

text \<open>
  Claim C3 as the specification words it fails: \<open>updateTokenUsage(session, data.usage)\<close>
  stands before \<open>data.choices[0]\<close> is read, so a body with a \<open>usage\<close> object and no
  \<open>choices\<close> fails the turn (the empty string is returned) and yet changes the usage
  counters of the user from none to 5, 7 and 12.
\<close>

theorem malformed_body_still_merges_usage:
  "chat \<lparr>model = ''gpt-4'', customModel = None, systemPrompt = None, maxTokens = 3000\<rparr>
     \<lparr>fetch = (answering (Response True
                 (Some \<lparr>usage = Some \<lparr>completion_tokens = 5, prompt_tokens = 7, total_tokens = 12\<rparr>,
                        choices = None\<rparr>))),
      writeFileSync_ok = True, database_get_ok = True, database_upsert_ok = True, larkUser = None\<rparr>
     \<lparr>userId = ''u'', username = ''alice'', platform = ''discord'', sessionContent = ''hello''\<rparr>
     ''hello''
     \<lparr>activeChats = [''u'' \<mapsto> True], files = Map.empty, database = Map.empty\<rparr> =
     Some (Inr [],
           \<lparr>activeChats = [''u'' \<mapsto> True], files = Map.empty,
            database = [''u'' \<mapsto> \<lparr>usageId = ''u'', userName = ''alice'', completionTokens = 5,
                                   promptTokens = 7, totalTokens = 12, remark = []\<rparr>]\<rparr>)"
  by (simp add: chat_def loadContext_def prepareContext_def Let_def truncateContextIfNeeded_def
      truncateLoop_within contentLength_Cons contentLength_Nil systemMessage_def
      chatRequest_def replyText_def updateTokenUsage_def computeNewUsage_def writeNewUsage_def
      existingUsage_def resolveUserName_def upsert_def jsAdd_exact)

text \<open>
  Claim C5, as the code has it. When the endpoint has answered and the reply text is
  parsed: if the write of the conversation record succeeds, \<open>chat\<close> returns the reply text
  whatever becomes of the usage row (whether the table's read, its upsert or the name
  lookup fail or not); if the write of the conversation record fails, the exception is
  caught by the \<open>catch\<close> of \<open>chat\<close>, which returns the empty string.
\<close>

theorem reply_kept_when_usage_persistence_fails:
  assumes "loadContext (files w) (userId session) = Inr loaded"
    and "prepareContext config loaded input = Some (Inr context)"
    and "fetch env (requestBody config context) = Response True (Some data)"
    and "replyText data = Some reply"
  shows "(writeFileSync_ok env \<longrightarrow>
            (\<forall>get_ok upsert_ok lark. \<exists>w'.
               chat config (env\<lparr>database_get_ok := get_ok, database_upsert_ok := upsert_ok,
                                 larkUser := lark\<rparr>) session input w = Some (Inr reply, w'))) \<and>
         (\<not> writeFileSync_ok env \<longrightarrow>
            (\<exists>w'. chat config env session input w = Some (Inr [], w')))"
proof -
  have "\<exists>w'. chat config (env\<lparr>database_get_ok := get_ok, database_upsert_ok := upsert_ok,
                                 larkUser := lark\<rparr>) session input w = Some (Inr reply, w')"
    if "writeFileSync_ok env" for get_ok upsert_ok lark
  proof -
    let ?env = "env\<lparr>database_get_ok := get_ok, database_upsert_ok := upsert_ok, larkUser := lark\<rparr>"
    from assms(3) have "fetch ?env (requestBody config context) = Response True (Some data)"
      by simp
    from chatRequest_text [OF this assms(4), of session w] that
      chat_run [OF assms(1) assms(2), of ?env]
    show ?thesis by simp
  qed
  moreover have "\<exists>w'. chat config env session input w = Some (Inr [], w')"
    if "\<not> writeFileSync_ok env"
    using chatRequest_text [OF assms(3) assms(4), of session w] that
      chat_run [OF assms(1) assms(2), of env]
    by simp
  ultimately show ?thesis by blast
qed


theorem reply_kept_when_usage_persistence_fails_witness:
  "loadContext Map.empty ''u'' = Inr (Array []) \<and>
   prepareContext \<lparr>model = ''gpt-4'', customModel = None, systemPrompt = None, maxTokens = 3000\<rparr>
     (Array []) ''hello'' = Some (Inr [\<lparr>role = ''user'', content = ''hello''\<rparr>]) \<and>
   replyText \<lparr>usage = Some \<lparr>completion_tokens = 5, prompt_tokens = 7, total_tokens = 12\<rparr>,
              choices = Some [\<lparr>message = Some \<lparr>role = ''assistant'', content = ''hi''\<rparr>\<rparr>]\<rparr> =
     Some ''hi'' \<and>
   (\<exists>w'. chat \<lparr>model = ''gpt-4'', customModel = None, systemPrompt = None, maxTokens = 3000\<rparr>
     \<lparr>fetch = (answering (Response True
         (Some \<lparr>usage = Some \<lparr>completion_tokens = 5, prompt_tokens = 7, total_tokens = 12\<rparr>,
                choices = Some [\<lparr>message = Some \<lparr>role = ''assistant'', content = ''hi''\<rparr>\<rparr>]\<rparr>))),
      writeFileSync_ok = True, database_get_ok = False, database_upsert_ok = False, larkUser = None\<rparr>
     \<lparr>userId = ''u'', username = ''alice'', platform = ''discord'', sessionContent = ''hello''\<rparr>
     ''hello''
     \<lparr>activeChats = [''u'' \<mapsto> True], files = Map.empty, database = Map.empty\<rparr> =
     Some (Inr ''hi'', w')) \<and>
   (\<exists>w'. chat \<lparr>model = ''gpt-4'', customModel = None, systemPrompt = None, maxTokens = 3000\<rparr>
     \<lparr>fetch = (answering (Response True
         (Some \<lparr>usage = Some \<lparr>completion_tokens = 5, prompt_tokens = 7, total_tokens = 12\<rparr>,
                choices = Some [\<lparr>message = Some \<lparr>role = ''assistant'', content = ''hi''\<rparr>\<rparr>]\<rparr>))),
      writeFileSync_ok = False, database_get_ok = True, database_upsert_ok = True, larkUser = None\<rparr>
     \<lparr>userId = ''u'', username = ''alice'', platform = ''discord'', sessionContent = ''hello''\<rparr>
     ''hello''
     \<lparr>activeChats = [''u'' \<mapsto> True], files = Map.empty, database = Map.empty\<rparr> =
     Some (Inr [], w'))"
proof -
  let ?config = "\<lparr>model = ''gpt-4'', customModel = None, systemPrompt = None, maxTokens = 3000\<rparr>"
  let ?session = "\<lparr>userId = ''u'', username = ''alice'', platform = ''discord'', sessionContent = ''hello''\<rparr>"
  let ?w = "\<lparr>activeChats = [''u'' \<mapsto> True], files = Map.empty, database = Map.empty\<rparr>"
  let ?prepared = "[\<lparr>role = ''user'', content = ''hello''\<rparr>]"
  let ?data = "\<lparr>usage = Some \<lparr>completion_tokens = 5, prompt_tokens = 7, total_tokens = 12\<rparr>,
              choices = Some [\<lparr>message = Some \<lparr>role = ''assistant'', content = ''hi''\<rparr>\<rparr>]\<rparr>"
  let ?env = "\<lambda>write_ok. \<lparr>fetch = (answering (Response True (Some ?data))),
      writeFileSync_ok = write_ok, database_get_ok = True, database_upsert_ok = True, larkUser = None\<rparr>"
  have l0: "loadContext Map.empty ''u'' = Inr (Array [])" by (simp add: loadContext_def)
  then have l: "loadContext (files ?w) (userId ?session) = Inr (Array [])" by simp
  have p: "prepareContext ?config (Array []) ''hello'' = Some (Inr ?prepared)"
    by (simp add: prepareContext_def Let_def truncateContextIfNeeded_def truncateLoop_within
        contentLength_Cons contentLength_Nil systemMessage_def)
  have r: "replyText ?data = Some ''hi''" by (simp add: replyText_def)
  have f: "fetch (?env ok) (requestBody ?config ?prepared) = Response True (Some ?data)" for ok
    by simp
  note t = reply_kept_when_usage_persistence_fails [OF l p f r]
  from t [of True] have "\<forall>get_ok upsert_ok lark. \<exists>w'.
      chat ?config ((?env True)\<lparr>database_get_ok := get_ok, database_upsert_ok := upsert_ok,
                                 larkUser := lark\<rparr>) ?session ''hello'' ?w = Some (Inr ''hi'', w')"
    by simp
  then have "\<exists>w'. chat ?config ((?env True)\<lparr>database_get_ok := False, database_upsert_ok := False,
                                 larkUser := None\<rparr>) ?session ''hello'' ?w = Some (Inr ''hi'', w')"
    by blast
  then have a: "\<exists>w'. chat ?config \<lparr>fetch = (answering (Response True (Some ?data))),
      writeFileSync_ok = True, database_get_ok = False, database_upsert_ok = False, larkUser = None\<rparr>
      ?session ''hello'' ?w = Some (Inr ''hi'', w')"
    by simp
  from t [of False] have b: "\<exists>w'. chat ?config (?env False) ?session ''hello'' ?w = Some (Inr [], w')"
    by simp
  from l0 p r a b show ?thesis by simp
qed

text \<open>
  Claim C5 as the specification words it fails: the reply \<open>hi\<close> is parsed, the write of the
  conversation record fails, and \<open>chat\<close> returns the empty string, not the reply.
\<close>

theorem reply_lost_when_context_write_fails:
  "replyText \<lparr>usage = None,
              choices = Some [\<lparr>message = Some \<lparr>role = ''assistant'', content = ''hi''\<rparr>\<rparr>]\<rparr> =
     Some ''hi'' \<and>
   chat \<lparr>model = ''gpt-4'', customModel = None, systemPrompt = None, maxTokens = 3000\<rparr>
     \<lparr>fetch = (answering (Response True
         (Some \<lparr>usage = None,
                choices = Some [\<lparr>message = Some \<lparr>role = ''assistant'', content = ''hi''\<rparr>\<rparr>]\<rparr>))),
      writeFileSync_ok = False, database_get_ok = True, database_upsert_ok = True, larkUser = None\<rparr>
     \<lparr>userId = ''u'', username = ''alice'', platform = ''discord'', sessionContent = ''hello''\<rparr>
     ''hello''
     \<lparr>activeChats = [''u'' \<mapsto> True], files = Map.empty, database = Map.empty\<rparr> =
     Some (Inr [], \<lparr>activeChats = [''u'' \<mapsto> True], files = Map.empty, database = Map.empty\<rparr>)"
  by (simp add: chat_def loadContext_def prepareContext_def Let_def truncateContextIfNeeded_def
      truncateLoop_within contentLength_Cons contentLength_Nil systemMessage_def
      chatRequest_def replyText_def updateTokenUsage_no_usage saveContext_def)

text \<open>
  Claim C6, as the code has it. \<open>loadContext\<close> returns the empty sequence when the user has
  no record and the parsed value of the record when the record is there and parses; when
  there is no record, or the record holds an array of well-formed messages (each with a
  string as its content), the turn goes on (with a budget that is not negative) and \<open>chat\<close>
  returns: no exception leaves it.
\<close>

theorem load_absent_or_parsed_and_turn_proceeds:
  "(fs uid = None \<longrightarrow> loadContext fs uid = Inr (Array [])) \<and>
   (fs uid = Some (Json parsed) \<longrightarrow> loadContext fs uid = Inr parsed) \<and>
   (0 \<le> maxTokens config \<and>
    (files w (userId session) = None \<or>
     files w (userId session) = Some (Json (Array (map Msg stored)))) \<longrightarrow>
      (\<exists>response w'. chat config env session input w = Some (Inr response, w')))"
  using chat_returns [of config w session stored env input]
  by (simp add: loadContext_def)

theorem load_absent_or_parsed_and_turn_proceeds_witness:
  "loadContext Map.empty ''u'' = Inr (Array []) \<and>
   loadContext [''u'' \<mapsto> Json (Array [Msg \<lparr>role = ''user'', content = ''a''\<rparr>])] ''u'' =
     Inr (Array [Msg \<lparr>role = ''user'', content = ''a''\<rparr>]) \<and>
   (0::int) \<le> 3000 \<and>
   (\<exists>response w'.
      chat \<lparr>model = ''gpt-4'', customModel = None, systemPrompt = None, maxTokens = 3000\<rparr>
        \<lparr>fetch = (answering FetchError),
         writeFileSync_ok = True, database_get_ok = True, database_upsert_ok = True, larkUser = None\<rparr>
        \<lparr>userId = ''u'', username = ''alice'', platform = ''discord'', sessionContent = ''hello''\<rparr>
        ''hello''
        \<lparr>activeChats = [''u'' \<mapsto> True], files = Map.empty, database = Map.empty\<rparr> =
        Some (Inr response, w')) \<and>
   (\<exists>response w'.
      chat \<lparr>model = ''gpt-4'', customModel = None, systemPrompt = None, maxTokens = 3000\<rparr>
        \<lparr>fetch = (answering FetchError),
         writeFileSync_ok = True, database_get_ok = True, database_upsert_ok = True, larkUser = None\<rparr>
        \<lparr>userId = ''u'', username = ''alice'', platform = ''discord'', sessionContent = ''hello''\<rparr>
        ''hello''
        \<lparr>activeChats = [''u'' \<mapsto> True],
         files = [''u'' \<mapsto> Json (Array [Msg \<lparr>role = ''user'', content = ''a''\<rparr>])],
         database = Map.empty\<rparr> = Some (Inr response, w'))"
proof -
  let ?config = "\<lparr>model = ''gpt-4'', customModel = None, systemPrompt = None, maxTokens = 3000\<rparr>"
  let ?session = "\<lparr>userId = ''u'', username = ''alice'', platform = ''discord'', sessionContent = ''hello''\<rparr>"
  let ?stored = "[\<lparr>role = ''user'', content = ''a''\<rparr>]"
  let ?fs = "[''u'' \<mapsto> Json (Array [Msg \<lparr>role = ''user'', content = ''a''\<rparr>])]"
  let ?absent = "\<lparr>activeChats = [''u'' \<mapsto> True], files = Map.empty, database = Map.empty\<rparr>"
  let ?w = "\<lparr>activeChats = [''u'' \<mapsto> True], files = ?fs, database = Map.empty\<rparr>"
  let ?env = "\<lparr>fetch = (answering FetchError),
         writeFileSync_ok = True, database_get_ok = True, database_upsert_ok = True, larkUser = None\<rparr>"
  have a: "loadContext Map.empty ''u'' = Inr (Array [])"
    using load_absent_or_parsed_and_turn_proceeds [of Map.empty "''u''"] by simp
  have b: "loadContext ?fs ''u'' = Inr (Array [Msg \<lparr>role = ''user'', content = ''a''\<rparr>])"
    using load_absent_or_parsed_and_turn_proceeds
      [of ?fs "''u''" "Array [Msg \<lparr>role = ''user'', content = ''a''\<rparr>]"]
    by simp
  have c: "\<exists>response w'. chat ?config ?env ?session ''hello'' ?absent = Some (Inr response, w')"
    using load_absent_or_parsed_and_turn_proceeds
      [of Map.empty "''u''" NotArray ?config ?absent ?session ?stored ?env "''hello''"]
    by simp
  have d: "\<exists>response w'. chat ?config ?env ?session ''hello'' ?w = Some (Inr response, w')"
    using load_absent_or_parsed_and_turn_proceeds
      [of Map.empty "''u''" NotArray ?config ?w ?session ?stored ?env "''hello''"]
    by simp
  have e: "(0::int) \<le> 3000" by simp
  from a b e c d show ?thesis by (intro conjI)
qed

text \<open>
  Claim C6 as the specification words it fails. A record that is there and cannot be read
  or parsed is not taken as an empty context: \<open>loadContext\<close> throws, the call stands before
  the \<open>try\<close> of \<open>chat\<close>, and the exception leaves \<open>chat\<close>. So does the TypeError on a record
  that parses to an array with an entry whose content is \<open>null\<close>.
\<close>

theorem unreadable_record_exception_escapes_chat:
  "chat \<lparr>model = ''gpt-4'', customModel = None, systemPrompt = None, maxTokens = 3000\<rparr>
     \<lparr>fetch = (answering FetchError),
      writeFileSync_ok = True, database_get_ok = True, database_upsert_ok = True, larkUser = None\<rparr>
     \<lparr>userId = ''u'', username = ''alice'', platform = ''discord'', sessionContent = ''hello''\<rparr>
     ''hello''
     \<lparr>activeChats = [''u'' \<mapsto> True], files = [''u'' \<mapsto> Unreadable], database = Map.empty\<rparr> =
     Some (Inl ReadFailure,
           \<lparr>activeChats = [''u'' \<mapsto> True], files = [''u'' \<mapsto> Unreadable], database = Map.empty\<rparr>) \<and>
   chat \<lparr>model = ''gpt-4'', customModel = None, systemPrompt = None, maxTokens = 3000\<rparr>
     \<lparr>fetch = (answering FetchError),
      writeFileSync_ok = True, database_get_ok = True, database_upsert_ok = True, larkUser = None\<rparr>
     \<lparr>userId = ''u'', username = ''alice'', platform = ''discord'', sessionContent = ''hello''\<rparr>
     ''hello''
     \<lparr>activeChats = [''u'' \<mapsto> True],
      files = [''u'' \<mapsto> Json (Array [Msg \<lparr>role = ''user'', content = ''a''\<rparr>, NoContent ''assistant''])],
      database = Map.empty\<rparr> =
     Some (Inl TypeError,
           \<lparr>activeChats = [''u'' \<mapsto> True],
            files = [''u'' \<mapsto> Json (Array [Msg \<lparr>role = ''user'', content = ''a''\<rparr>, NoContent ''assistant''])],
            database = Map.empty\<rparr>)"
  by (simp add: chat_def loadContext_def prepareContext_def Let_def entryRole_def)

section \<open>Properties of the Usage Ledger\<close>

text \<open>Above \<open>2^53\<close> the doubles are the even integers: odd sums are rounded, a tie to the
  even significand.\<close>

lemma roundToDouble_tie_down: "roundToDouble 9007199254740993 = 9007199254740992"
  by (simp add: roundToDouble_def Let_def)

lemma roundToDouble_tie_up: "roundToDouble 9007199254740995 = 9007199254740996"
  by (simp add: roundToDouble_def Let_def)

lemma roundToDouble_even: "roundToDouble 9007199254740994 = 9007199254740994"
  by (simp add: roundToDouble_def Let_def)

lemma updateTokenUsage_other:
  "uid \<noteq> userId session \<Longrightarrow> updateTokenUsage env session usage_arg db uid = db uid"
  by (simp add: updateTokenUsage_def computeNewUsage_def writeNewUsage_def upsert_def
      split: prod.splits sum.splits option.splits)

lemma updateTokenUsage_outcome:
  "updateTokenUsage env session usage_arg db = db \<or>
   (\<exists>name u. usage_arg = Some u \<and>
      updateTokenUsage env session usage_arg db =
        upsert db
          \<lparr>new_id = userId session, new_userName = name,
           new_completionTokens = jsAdd (fst (counters db (userId session))) (completion_tokens u),
           new_promptTokens = jsAdd (fst (snd (counters db (userId session)))) (prompt_tokens u),
           new_totalTokens = jsAdd (snd (snd (counters db (userId session)))) (total_tokens u)\<rparr>)"
  by (auto simp: updateTokenUsage_def computeNewUsage_def writeNewUsage_def existingUsage_def
      counters_def split: prod.splits sum.splits option.splits)

lemma resolveUserName_succeeds:
  "ioSucceeds env session \<Longrightarrow> \<exists>name. resolveUserName env session existingName = Inr name"
  by (auto simp: ioSucceeds_def resolveUserName_def split: option.splits)

lemma updateTokenUsage_succeeds:
  assumes "ioSucceeds env session"
  shows "\<exists>name.
      updateTokenUsage env session (Some u) db =
        upsert db
          \<lparr>new_id = userId session, new_userName = name,
           new_completionTokens = jsAdd (fst (counters db (userId session))) (completion_tokens u),
           new_promptTokens = jsAdd (fst (snd (counters db (userId session)))) (prompt_tokens u),
           new_totalTokens = jsAdd (snd (snd (counters db (userId session)))) (total_tokens u)\<rparr>"
proof -
  obtain existingName c p t where e: "existingUsage db (userId session) = (existingName, c, p, t)"
    by (cases "existingUsage db (userId session)") auto
  then have cnt: "counters db (userId session) = (c, p, t)"
    by (auto simp: existingUsage_def counters_def split: option.splits)
  from resolveUserName_succeeds [OF assms, of existingName]
  obtain name where "resolveUserName env session existingName = Inr name" ..
  with e cnt assms show ?thesis
    by (auto simp: updateTokenUsage_def computeNewUsage_def writeNewUsage_def ioSucceeds_def)
qed

text \<open>A call in which the read, the lookup or the upsert throws writes nothing.\<close>

lemma updateTokenUsage_fails:
  "\<not> database_get_ok env \<or> \<not> database_upsert_ok env \<or>
   resolveUserName env session (fst (existingUsage db (userId session))) = Inl e \<Longrightarrow>
   updateTokenUsage env session usage_arg db = db"
  by (auto simp: updateTokenUsage_def computeNewUsage_def writeNewUsage_def
      split: prod.splits sum.splits option.splits)

lemma counters_upsert:
  "counters (upsert db n) (new_id n) = (new_completionTokens n, new_promptTokens n, new_totalTokens n)"
  by (simp add: counters_def upsert_def split: option.splits)

lemma counters_merge:
  assumes "ioSucceeds env session"
  shows "counters (updateTokenUsage env session (Some u) db) (userId session) =
     (jsAdd (fst (counters db (userId session))) (completion_tokens u),
      jsAdd (fst (snd (counters db (userId session)))) (prompt_tokens u),
      jsAdd (snd (snd (counters db (userId session)))) (total_tokens u))"
proof -
  from updateTokenUsage_succeeds [OF assms, of u db] obtain name where
    "updateTokenUsage env session (Some u) db =
        upsert db
          \<lparr>new_id = userId session, new_userName = name,
           new_completionTokens = jsAdd (fst (counters db (userId session))) (completion_tokens u),
           new_promptTokens = jsAdd (fst (snd (counters db (userId session)))) (prompt_tokens u),
           new_totalTokens = jsAdd (snd (snd (counters db (userId session)))) (total_tokens u)\<rparr>" ..
  then show ?thesis using counters_upsert [of db "\<lparr>new_id = userId session, new_userName = name,
           new_completionTokens = jsAdd (fst (counters db (userId session))) (completion_tokens u),
           new_promptTokens = jsAdd (fst (snd (counters db (userId session)))) (prompt_tokens u),
           new_totalTokens = jsAdd (snd (snd (counters db (userId session)))) (total_tokens u)\<rparr>"]
    by simp
qed

lemma counters_other:
  "uid \<noteq> userId session \<Longrightarrow>
   counters (updateTokenUsage env session usage_arg db) uid = counters db uid"
  by (simp add: counters_def updateTokenUsage_other)

text \<open>Whatever a call does, the counters of a user are as before or are the double sums.\<close>

lemma counters_step:
  "counters (updateTokenUsage env session (Some u) db) uid = counters db uid \<or>
   counters (updateTokenUsage env session (Some u) db) uid =
     (jsAdd (fst (counters db uid)) (completion_tokens u),
      jsAdd (fst (snd (counters db uid))) (prompt_tokens u),
      jsAdd (snd (snd (counters db uid))) (total_tokens u))"
proof (cases "uid = userId session")
  case False
  then show ?thesis by (simp add: counters_other)
next
  case True
  from updateTokenUsage_outcome [of env session "Some u" db]
  show ?thesis
  proof
    assume "updateTokenUsage env session (Some u) db = db"
    then show ?thesis by simp
  next
    assume "\<exists>name u'. Some u = Some u' \<and>
      updateTokenUsage env session (Some u) db =
        upsert db
          \<lparr>new_id = userId session, new_userName = name,
           new_completionTokens = jsAdd (fst (counters db (userId session))) (completion_tokens u'),
           new_promptTokens = jsAdd (fst (snd (counters db (userId session)))) (prompt_tokens u'),
           new_totalTokens = jsAdd (snd (snd (counters db (userId session)))) (total_tokens u')\<rparr>"
    then obtain name where "updateTokenUsage env session (Some u) db =
        upsert db
          \<lparr>new_id = userId session, new_userName = name,
           new_completionTokens = jsAdd (fst (counters db (userId session))) (completion_tokens u),
           new_promptTokens = jsAdd (fst (snd (counters db (userId session)))) (prompt_tokens u),
           new_totalTokens = jsAdd (snd (snd (counters db (userId session)))) (total_tokens u)\<rparr>"
      by auto
    then have "counters (updateTokenUsage env session (Some u) db) (userId session) =
       (jsAdd (fst (counters db (userId session))) (completion_tokens u),
        jsAdd (fst (snd (counters db (userId session)))) (prompt_tokens u),
        jsAdd (snd (snd (counters db (userId session)))) (total_tokens u))"
      using counters_upsert [of db "\<lparr>new_id = userId session, new_userName = name,
           new_completionTokens = jsAdd (fst (counters db (userId session))) (completion_tokens u),
           new_promptTokens = jsAdd (fst (snd (counters db (userId session)))) (prompt_tokens u),
           new_totalTokens = jsAdd (snd (snd (counters db (userId session)))) (total_tokens u)\<rparr>"]
      by simp
    with True show ?thesis by simp
  qed
qed

lemma withinExact_Cons:
  assumes "withinExact c (d # ds)"
  shows "jsAdd c d = c + d" and "withinExact (c + d) ds" and "withinExact c ds"
proof -
  from assms have b: "\<bar>c\<bar> + \<bar>d\<bar> + (\<Sum>x\<leftarrow>ds. \<bar>x\<bar>) \<le> 9007199254740992"
    by (simp add: withinExact_def)
  have nn: "0 \<le> (\<Sum>x\<leftarrow>ds. \<bar>x\<bar>)" by (rule sum_list_nonneg) auto
  from b nn have "\<bar>c + d\<bar> \<le> 9007199254740992" by linarith
  then show "jsAdd c d = c + d" by (rule jsAdd_exact)
  from b show "withinExact (c + d) ds" unfolding withinExact_def by linarith
  from b show "withinExact c ds" unfolding withinExact_def by linarith
qed

lemma withinExact_perm:
  "mset ds = mset ds' \<Longrightarrow> withinExact c ds = withinExact c ds'"
  unfolding withinExact_def by (metis mset_map sum_mset_sum_list)


lemma mergeAll_sum:
  "\<forall>(env, session, u) \<in> set calls. userId session = uid \<and> ioSucceeds env session \<Longrightarrow>
   withinExact (fst (counters db uid)) (map (\<lambda>(env, session, u). completion_tokens u) calls) \<Longrightarrow>
   withinExact (fst (snd (counters db uid))) (map (\<lambda>(env, session, u). prompt_tokens u) calls) \<Longrightarrow>
   withinExact (snd (snd (counters db uid))) (map (\<lambda>(env, session, u). total_tokens u) calls) \<Longrightarrow>
   counters (mergeAll calls db) uid =
     (fst (counters db uid) + (\<Sum>(env, session, u)\<leftarrow>calls. completion_tokens u),
      fst (snd (counters db uid)) + (\<Sum>(env, session, u)\<leftarrow>calls. prompt_tokens u),
      snd (snd (counters db uid)) + (\<Sum>(env, session, u)\<leftarrow>calls. total_tokens u))"
proof (induction calls arbitrary: db)
  case Nil
  then show ?case by simp
next
  case (Cons call calls)
  obtain env session u where call: "call = (env, session, u)" by (cases call) auto
  with Cons.prems(1) have ok: "userId session = uid" "ioSucceeds env session" by simp_all
  from Cons.prems(1) have rest: "\<forall>(env, session, u) \<in> set calls. userId session = uid \<and> ioSucceeds env session"
    by simp
  let ?db = "updateTokenUsage env session (Some u) db"
  note bc = withinExact_Cons [OF Cons.prems(2) [unfolded call, simplified]]
  note bp = withinExact_Cons [OF Cons.prems(3) [unfolded call, simplified]]
  note bt = withinExact_Cons [OF Cons.prems(4) [unfolded call, simplified]]
  from counters_merge [OF ok(2), of u db] ok(1) bc(1) bp(1) bt(1)
  have step: "counters ?db uid =
     (fst (counters db uid) + completion_tokens u,
      fst (snd (counters db uid)) + prompt_tokens u,
      snd (snd (counters db uid)) + total_tokens u)"
    by simp
  from step bc(2) have c: "withinExact (fst (counters ?db uid)) (map (\<lambda>(env, session, u). completion_tokens u) calls)"
    by simp
  from step bp(2) have p: "withinExact (fst (snd (counters ?db uid))) (map (\<lambda>(env, session, u). prompt_tokens u) calls)"
    by simp
  from step bt(2) have t: "withinExact (snd (snd (counters ?db uid))) (map (\<lambda>(env, session, u). total_tokens u) calls)"
    by simp
  from Cons.IH [OF rest c p t] step call show ?case by simp
qed

lemma sum_list_mset_cong:
  "mset xs = mset ys \<Longrightarrow> sum_list (map f xs) = (sum_list (map f ys) :: int)"
  by (metis mset_map sum_mset_sum_list)

lemma countersLe_refl: "countersLe a a"
  by (simp add: countersLe_def split: prod.splits)

lemma countersLe_trans: "countersLe a b \<Longrightarrow> countersLe b c \<Longrightarrow> countersLe a c"
  by (auto simp: countersLe_def split: prod.splits)

lemma mergeAll_mono:
  "\<forall>(env, session, u) \<in> set calls.
      0 \<le> completion_tokens u \<and> 0 \<le> prompt_tokens u \<and> 0 \<le> total_tokens u \<Longrightarrow>
   withinExact (fst (counters db uid)) (map (\<lambda>(env, session, u). completion_tokens u) calls) \<Longrightarrow>
   withinExact (fst (snd (counters db uid))) (map (\<lambda>(env, session, u). prompt_tokens u) calls) \<Longrightarrow>
   withinExact (snd (snd (counters db uid))) (map (\<lambda>(env, session, u). total_tokens u) calls) \<Longrightarrow>
   countersLe (counters db uid) (counters (mergeAll calls db) uid)"
proof (induction calls arbitrary: db)
  case Nil
  then show ?case by (simp add: countersLe_refl)
next
  case (Cons call calls)
  obtain env session u where call: "call = (env, session, u)" by (cases call) auto
  with Cons.prems(1) have nn: "0 \<le> completion_tokens u" "0 \<le> prompt_tokens u" "0 \<le> total_tokens u"
    by simp_all
  from Cons.prems(1) have rest: "\<forall>(env, session, u) \<in> set calls.
      0 \<le> completion_tokens u \<and> 0 \<le> prompt_tokens u \<and> 0 \<le> total_tokens u"
    by simp
  let ?db = "updateTokenUsage env session (Some u) db"
  note bc = withinExact_Cons [OF Cons.prems(2) [unfolded call, simplified]]
  note bp = withinExact_Cons [OF Cons.prems(3) [unfolded call, simplified]]
  note bt = withinExact_Cons [OF Cons.prems(4) [unfolded call, simplified]]
  from counters_step [of env session u db uid]
  have "countersLe (counters db uid) (counters ?db uid) \<and>
        withinExact (fst (counters ?db uid)) (map (\<lambda>(env, session, u). completion_tokens u) calls) \<and>
        withinExact (fst (snd (counters ?db uid))) (map (\<lambda>(env, session, u). prompt_tokens u) calls) \<and>
        withinExact (snd (snd (counters ?db uid))) (map (\<lambda>(env, session, u). total_tokens u) calls)"
  proof
    assume "counters ?db uid = counters db uid"
    with bc(3) bp(3) bt(3) show ?thesis by (simp add: countersLe_refl)
  next
    assume "counters ?db uid =
     (jsAdd (fst (counters db uid)) (completion_tokens u),
      jsAdd (fst (snd (counters db uid))) (prompt_tokens u),
      jsAdd (snd (snd (counters db uid))) (total_tokens u))"
    with bc(1) bp(1) bt(1) have step: "counters ?db uid =
     (fst (counters db uid) + completion_tokens u,
      fst (snd (counters db uid)) + prompt_tokens u,
      snd (snd (counters db uid)) + total_tokens u)"
      by simp
    with nn have "countersLe (counters db uid) (counters ?db uid)"
      by (cases "counters db uid") (simp add: countersLe_def)
    with step bc(2) bp(2) bt(2) show ?thesis by simp
  qed
  then have le: "countersLe (counters db uid) (counters ?db uid)"
    and c: "withinExact (fst (counters ?db uid)) (map (\<lambda>(env, session, u). completion_tokens u) calls)"
    and p: "withinExact (fst (snd (counters ?db uid))) (map (\<lambda>(env, session, u). prompt_tokens u) calls)"
    and t: "withinExact (snd (snd (counters ?db uid))) (map (\<lambda>(env, session, u). total_tokens u) calls)"
    by simp_all
  from Cons.IH [OF rest c p t] le call show ?case by (auto intro: countersLe_trans)
qed

text \<open>A call followed at once by its upsert is the call that runs to its end.\<close>

lemma call_then_upsert:
  "ledgerRun [Call env session usage_arg, Upsert 0] \<lparr>usageTable = db, awaiting = []\<rparr> =
     \<lparr>usageTable = updateTokenUsage env session usage_arg db, awaiting = []\<rparr>"
  by (simp add: updateTokenUsage_def split: option.splits)

text \<open>
  Claim C7, as the code has it. A call of \<open>updateTokenUsage\<close> in which no I/O operation
  throws, and that runs from its read to its upsert with no other write to the table in
  between, sets the three counters of the session's user to the double sums of the stored
  values (0 when the user has no row) and the deltas of the \<open>usage\<close> object, which are the
  exact sums while these are within \<open>2^53\<close> in magnitude; it stores the row under the user's
  identifier and leaves the rows of all other users alone. A call in which the read of the
  table, the name lookup or the upsert throws writes nothing. Hence after any sequence of
  calls for one user, each run to its end before the next and none throwing, and with the
  stored values and the deltas small enough for doubles to hold every partial sum exactly,
  the counters are the stored values plus the sums of the deltas, and every reordering of
  the calls ends with the same counters. And for such small values, whatever the calls are
  (for whichever users, throwing or not), deltas that are not negative never lower a
  counter.
\<close>

theorem usage_merge_additive:
  "(ioSucceeds env session \<longrightarrow>
      counters (updateTokenUsage env session (Some u) db) (userId session) =
        (jsAdd (fst (counters db (userId session))) (completion_tokens u),
         jsAdd (fst (snd (counters db (userId session)))) (prompt_tokens u),
         jsAdd (snd (snd (counters db (userId session)))) (total_tokens u)) \<and>
      userId session \<in> dom (updateTokenUsage env session (Some u) db) \<and>
      (\<forall>other. other \<noteq> userId session \<longrightarrow>
         updateTokenUsage env session (Some u) db other = db other)) \<and>
   (\<bar>a + b\<bar> \<le> 9007199254740992 \<longrightarrow> jsAdd a b = a + b) \<and>
   (\<not> database_get_ok env \<or> \<not> database_upsert_ok env \<or>
    resolveUserName env session (fst (existingUsage db (userId session))) = Inl e \<longrightarrow>
      updateTokenUsage env session usage_arg db = db) \<and>
   ((\<forall>(env, session, u) \<in> set calls. userId session = uid \<and> ioSucceeds env session) \<and>
    withinExact (fst (counters db uid)) (map (\<lambda>(env, session, u). completion_tokens u) calls) \<and>
    withinExact (fst (snd (counters db uid))) (map (\<lambda>(env, session, u). prompt_tokens u) calls) \<and>
    withinExact (snd (snd (counters db uid))) (map (\<lambda>(env, session, u). total_tokens u) calls) \<longrightarrow>
      counters (mergeAll calls db) uid =
        (fst (counters db uid) + (\<Sum>(env, session, u)\<leftarrow>calls. completion_tokens u),
         fst (snd (counters db uid)) + (\<Sum>(env, session, u)\<leftarrow>calls. prompt_tokens u),
         snd (snd (counters db uid)) + (\<Sum>(env, session, u)\<leftarrow>calls. total_tokens u)) \<and>
      (\<forall>calls'. mset calls' = mset calls \<longrightarrow>
         counters (mergeAll calls' db) uid = counters (mergeAll calls db) uid)) \<and>
   ((\<forall>(env, session, u) \<in> set calls.
        0 \<le> completion_tokens u \<and> 0 \<le> prompt_tokens u \<and> 0 \<le> total_tokens u) \<and>
    withinExact (fst (counters db uid)) (map (\<lambda>(env, session, u). completion_tokens u) calls) \<and>
    withinExact (fst (snd (counters db uid))) (map (\<lambda>(env, session, u). prompt_tokens u) calls) \<and>
    withinExact (snd (snd (counters db uid))) (map (\<lambda>(env, session, u). total_tokens u) calls) \<longrightarrow>
      countersLe (counters db uid) (counters (mergeAll calls db) uid))"
proof (intro conjI impI allI)
  assume ok: "ioSucceeds env session"
  then show "counters (updateTokenUsage env session (Some u) db) (userId session) =
        (jsAdd (fst (counters db (userId session))) (completion_tokens u),
         jsAdd (fst (snd (counters db (userId session)))) (prompt_tokens u),
         jsAdd (snd (snd (counters db (userId session)))) (total_tokens u))"
    by (rule counters_merge)
  from updateTokenUsage_succeeds [OF ok, of u db]
  show "userId session \<in> dom (updateTokenUsage env session (Some u) db)"
    by (auto simp: upsert_def)
next
  fix other assume "other \<noteq> userId session"
  then show "updateTokenUsage env session (Some u) db other = db other"
    by (rule updateTokenUsage_other)
next
  assume "\<bar>a + b\<bar> \<le> 9007199254740992"
  then show "jsAdd a b = a + b" by (rule jsAdd_exact)
next
  assume "\<not> database_get_ok env \<or> \<not> database_upsert_ok env \<or>
    resolveUserName env session (fst (existingUsage db (userId session))) = Inl e"
  then show "updateTokenUsage env session usage_arg db = db"
    by (rule updateTokenUsage_fails)
next
  assume h: "(\<forall>(env, session, u) \<in> set calls. userId session = uid \<and> ioSucceeds env session) \<and>
    withinExact (fst (counters db uid)) (map (\<lambda>(env, session, u). completion_tokens u) calls) \<and>
    withinExact (fst (snd (counters db uid))) (map (\<lambda>(env, session, u). prompt_tokens u) calls) \<and>
    withinExact (snd (snd (counters db uid))) (map (\<lambda>(env, session, u). total_tokens u) calls)"
  then show "counters (mergeAll calls db) uid =
        (fst (counters db uid) + (\<Sum>(env, session, u)\<leftarrow>calls. completion_tokens u),
         fst (snd (counters db uid)) + (\<Sum>(env, session, u)\<leftarrow>calls. prompt_tokens u),
         snd (snd (counters db uid)) + (\<Sum>(env, session, u)\<leftarrow>calls. total_tokens u))"
    by (intro mergeAll_sum) simp_all
next
  fix calls'
  assume h: "(\<forall>(env, session, u) \<in> set calls. userId session = uid \<and> ioSucceeds env session) \<and>
    withinExact (fst (counters db uid)) (map (\<lambda>(env, session, u). completion_tokens u) calls) \<and>
    withinExact (fst (snd (counters db uid))) (map (\<lambda>(env, session, u). prompt_tokens u) calls) \<and>
    withinExact (snd (snd (counters db uid))) (map (\<lambda>(env, session, u). total_tokens u) calls)"
    and perm: "mset calls' = mset calls"
  from perm have "set calls' = set calls" by (rule mset_eq_setD)
  with h have all': "\<forall>(env, session, u) \<in> set calls'. userId session = uid \<and> ioSucceeds env session"
    by simp
  have m: "mset (map f calls') = mset (map f calls)" for f :: "Env \<times> Session \<times> Usage \<Rightarrow> int"
    using perm by simp
  from h withinExact_perm [OF m]
  have c: "withinExact (fst (counters db uid)) (map (\<lambda>(env, session, u). completion_tokens u) calls')"
    and p: "withinExact (fst (snd (counters db uid))) (map (\<lambda>(env, session, u). prompt_tokens u) calls')"
    and t: "withinExact (snd (snd (counters db uid))) (map (\<lambda>(env, session, u). total_tokens u) calls')"
    by simp_all
  have s: "counters (mergeAll calls db) uid =
        (fst (counters db uid) + (\<Sum>(env, session, u)\<leftarrow>calls. completion_tokens u),
         fst (snd (counters db uid)) + (\<Sum>(env, session, u)\<leftarrow>calls. prompt_tokens u),
         snd (snd (counters db uid)) + (\<Sum>(env, session, u)\<leftarrow>calls. total_tokens u))"
    using h by (intro mergeAll_sum) simp_all
  show "counters (mergeAll calls' db) uid = counters (mergeAll calls db) uid"
    unfolding s mergeAll_sum [OF all' c p t]
    using sum_list_mset_cong [OF perm] by simp
next
  assume "(\<forall>(env, session, u) \<in> set calls.
        0 \<le> completion_tokens u \<and> 0 \<le> prompt_tokens u \<and> 0 \<le> total_tokens u) \<and>
    withinExact (fst (counters db uid)) (map (\<lambda>(env, session, u). completion_tokens u) calls) \<and>
    withinExact (fst (snd (counters db uid))) (map (\<lambda>(env, session, u). prompt_tokens u) calls) \<and>
    withinExact (snd (snd (counters db uid))) (map (\<lambda>(env, session, u). total_tokens u) calls)"
  then show "countersLe (counters db uid) (counters (mergeAll calls db) uid)"
    by (intro mergeAll_mono) simp_all
qed

theorem usage_merge_additive_witness:
  "ioSucceeds \<lparr>fetch = (answering FetchError), writeFileSync_ok = True,
        database_get_ok = True, database_upsert_ok = True, larkUser = None\<rparr>
     \<lparr>userId = ''u'', username = ''alice'', platform = ''discord'', sessionContent = ''hello''\<rparr> \<and>
   counters (updateTokenUsage \<lparr>fetch = (answering FetchError), writeFileSync_ok = True,
        database_get_ok = True, database_upsert_ok = True, larkUser = None\<rparr>
       \<lparr>userId = ''u'', username = ''alice'', platform = ''discord'', sessionContent = ''hello''\<rparr> (Some \<lparr>completion_tokens = 1, prompt_tokens = 2, total_tokens = 3\<rparr>) Map.empty) ''u'' = (1, 2, 3) \<and>
   updateTokenUsage \<lparr>fetch = (answering FetchError), writeFileSync_ok = True,
        database_get_ok = False, database_upsert_ok = True, larkUser = None\<rparr>
       \<lparr>userId = ''u'', username = ''alice'', platform = ''discord'', sessionContent = ''hello''\<rparr> (Some \<lparr>completion_tokens = 1, prompt_tokens = 2, total_tokens = 3\<rparr>) Map.empty = Map.empty \<and>
   counters (mergeAll
      [(\<lparr>fetch = (answering FetchError), writeFileSync_ok = True,
        database_get_ok = True, database_upsert_ok = True, larkUser = None\<rparr>,
       \<lparr>userId = ''u'', username = ''alice'', platform = ''discord'', sessionContent = ''hello''\<rparr>,
       \<lparr>completion_tokens = 1, prompt_tokens = 2, total_tokens = 3\<rparr>),
       (\<lparr>fetch = (answering FetchError), writeFileSync_ok = True,
        database_get_ok = True, database_upsert_ok = True, larkUser = None\<rparr>,
       \<lparr>userId = ''u'', username = ''alice'', platform = ''discord'', sessionContent = ''hello''\<rparr>,
       \<lparr>completion_tokens = 10, prompt_tokens = 20, total_tokens = 30\<rparr>)] Map.empty) ''u'' = (11, 22, 33) \<and>
   counters (mergeAll
      [(\<lparr>fetch = (answering FetchError), writeFileSync_ok = True,
        database_get_ok = True, database_upsert_ok = True, larkUser = None\<rparr>,
       \<lparr>userId = ''u'', username = ''alice'', platform = ''discord'', sessionContent = ''hello''\<rparr>,
       \<lparr>completion_tokens = 10, prompt_tokens = 20, total_tokens = 30\<rparr>),
       (\<lparr>fetch = (answering FetchError), writeFileSync_ok = True,
        database_get_ok = True, database_upsert_ok = True, larkUser = None\<rparr>,
       \<lparr>userId = ''u'', username = ''alice'', platform = ''discord'', sessionContent = ''hello''\<rparr>,
       \<lparr>completion_tokens = 1, prompt_tokens = 2, total_tokens = 3\<rparr>)] Map.empty) ''u'' = (11, 22, 33) \<and>
   countersLe (counters Map.empty ''u'') (counters (mergeAll
      [(\<lparr>fetch = (answering FetchError), writeFileSync_ok = True,
        database_get_ok = True, database_upsert_ok = True, larkUser = None\<rparr>,
       \<lparr>userId = ''u'', username = ''alice'', platform = ''discord'', sessionContent = ''hello''\<rparr>,
       \<lparr>completion_tokens = 1, prompt_tokens = 2, total_tokens = 3\<rparr>),
       (\<lparr>fetch = (answering FetchError), writeFileSync_ok = True,
        database_get_ok = True, database_upsert_ok = True, larkUser = None\<rparr>,
       \<lparr>userId = ''u'', username = ''alice'', platform = ''discord'', sessionContent = ''hello''\<rparr>,
       \<lparr>completion_tokens = 10, prompt_tokens = 20, total_tokens = 30\<rparr>)] Map.empty) ''u'')"
proof -
  let ?env = "\<lparr>fetch = (answering FetchError), writeFileSync_ok = True,
        database_get_ok = True, database_upsert_ok = True, larkUser = None\<rparr>"
  let ?failing = "\<lparr>fetch = (answering FetchError), writeFileSync_ok = True,
        database_get_ok = False, database_upsert_ok = True, larkUser = None\<rparr>"
  let ?session = "\<lparr>userId = ''u'', username = ''alice'', platform = ''discord'', sessionContent = ''hello''\<rparr>"
  let ?u1 = "\<lparr>completion_tokens = 1, prompt_tokens = 2, total_tokens = 3\<rparr>"
  let ?u2 = "\<lparr>completion_tokens = 10, prompt_tokens = 20, total_tokens = 30\<rparr>"
  let ?calls = "[(?env, ?session, ?u1), (?env, ?session, ?u2)]"
  let ?calls' = "[(?env, ?session, ?u2), (?env, ?session, ?u1)]"
  have ok: "ioSucceeds ?env ?session" by (simp add: ioSucceeds_def)
  have zero: "counters Map.empty ''u'' = (0, 0, 0)" by (simp add: counters_def)
  have all: "\<forall>(env, session, u) \<in> set ?calls. userId session = ''u'' \<and> ioSucceeds env session"
    using ok by simp
  have nn: "\<forall>(env, session, u) \<in> set ?calls.
        0 \<le> completion_tokens u \<and> 0 \<le> prompt_tokens u \<and> 0 \<le> total_tokens u"
    by simp
  have within:
    "withinExact (fst (counters Map.empty ''u'')) (map (\<lambda>(env, session, u). completion_tokens u) ?calls)"
    "withinExact (fst (snd (counters Map.empty ''u''))) (map (\<lambda>(env, session, u). prompt_tokens u) ?calls)"
    "withinExact (snd (snd (counters Map.empty ''u''))) (map (\<lambda>(env, session, u). total_tokens u) ?calls)"
    by (simp_all add: zero withinExact_def)
  have perm: "mset ?calls' = mset ?calls" by (simp add: add.commute)
  have small: "\<bar>(0::int) + 1\<bar> \<le> 9007199254740992" "\<bar>(0::int) + 2\<bar> \<le> 9007199254740992"
    "\<bar>(0::int) + 3\<bar> \<le> 9007199254740992"
    by simp_all
  note t = usage_merge_additive [of ?env ?session ?u1 Map.empty _ _ _ _ ?calls "''u''"]
  from t ok zero have "counters (updateTokenUsage ?env ?session (Some ?u1) Map.empty) ''u'' =
      (jsAdd 0 1, jsAdd 0 2, jsAdd 0 3)"
    by simp
  moreover from usage_merge_additive [of ?env ?session ?u1 Map.empty 0 1] small(1)
  have "jsAdd 0 1 = 0 + 1" by blast
  moreover from usage_merge_additive [of ?env ?session ?u1 Map.empty 0 2] small(2)
  have "jsAdd 0 2 = 0 + 2" by blast
  moreover from usage_merge_additive [of ?env ?session ?u1 Map.empty 0 3] small(3)
  have "jsAdd 0 3 = 0 + 3" by blast
  ultimately have a: "counters (updateTokenUsage ?env ?session (Some ?u1) Map.empty) ''u'' = (1, 2, 3)"
    by simp
  have "\<not> database_get_ok ?failing" by simp
  with usage_merge_additive [of ?failing ?session ?u1 Map.empty _ _ _ "Some ?u1"]
  have f: "updateTokenUsage ?failing ?session (Some ?u1) Map.empty = Map.empty" by blast
  from t all within have s: "counters (mergeAll ?calls Map.empty) ''u'' =
        (fst (counters Map.empty ''u'') + (\<Sum>(env, session, u)\<leftarrow>?calls. completion_tokens u),
         fst (snd (counters Map.empty ''u'')) + (\<Sum>(env, session, u)\<leftarrow>?calls. prompt_tokens u),
         snd (snd (counters Map.empty ''u'')) + (\<Sum>(env, session, u)\<leftarrow>?calls. total_tokens u))"
    and p: "\<forall>calls'. mset calls' = mset ?calls \<longrightarrow>
         counters (mergeAll calls' Map.empty) ''u'' = counters (mergeAll ?calls Map.empty) ''u''"
    by blast+
  from s zero have b: "counters (mergeAll ?calls Map.empty) ''u'' = (11, 22, 33)" by simp
  from p perm have "counters (mergeAll ?calls' Map.empty) ''u'' = counters (mergeAll ?calls Map.empty) ''u''"
    by blast
  with b have c: "counters (mergeAll ?calls' Map.empty) ''u'' = (11, 22, 33)" by simp
  from t nn within have d: "countersLe (counters Map.empty ''u'') (counters (mergeAll ?calls Map.empty) ''u'')"
    by blast
  from ok a f b c d show ?thesis by (intro conjI)
qed

text \<open>
  Claim C7 as the specification words it fails. A call whose Lark lookup throws leaves the
  counters at 0 instead of adding 5, 7 and 12; of two calls of which the first cannot read
  the table, only the deltas of the second arrive. Two calls that overlap (both read the
  table before either upserts) end with the deltas of the last upsert alone. And beyond
  \<open>2^53\<close> the order of the calls shows in the result.
\<close>

theorem failed_or_overlapping_merge_loses_delta:
  "counters (updateTokenUsage
      \<lparr>fetch = (answering FetchError), writeFileSync_ok = True,
        database_get_ok = True, database_upsert_ok = True, larkUser = None\<rparr>
      \<lparr>userId = ''u'', username = ''u'', platform = ''lark'', sessionContent = ''hello''\<rparr>
      (Some \<lparr>completion_tokens = 5, prompt_tokens = 7, total_tokens = 12\<rparr>) Map.empty) ''u'' =
     (0, 0, 0) \<and>
   counters (mergeAll
      [(\<lparr>fetch = (answering FetchError), writeFileSync_ok = True,
        database_get_ok = False, database_upsert_ok = True, larkUser = None\<rparr>,
        \<lparr>userId = ''u'', username = ''alice'', platform = ''discord'', sessionContent = ''hello''\<rparr>,
        \<lparr>completion_tokens = 1, prompt_tokens = 2, total_tokens = 3\<rparr>),
       (\<lparr>fetch = (answering FetchError), writeFileSync_ok = True,
        database_get_ok = True, database_upsert_ok = True, larkUser = None\<rparr>,
       \<lparr>userId = ''u'', username = ''alice'', platform = ''discord'', sessionContent = ''hello''\<rparr>,
       \<lparr>completion_tokens = 10, prompt_tokens = 20, total_tokens = 30\<rparr>)] Map.empty) ''u'' = (10, 20, 30) \<and>
   counters (usageTable (ledgerRun
      [Call \<lparr>fetch = (answering FetchError), writeFileSync_ok = True,
        database_get_ok = True, database_upsert_ok = True, larkUser = None\<rparr>
         \<lparr>userId = ''u'', username = ''alice'', platform = ''discord'', sessionContent = ''hello''\<rparr> (Some \<lparr>completion_tokens = 1, prompt_tokens = 2, total_tokens = 3\<rparr>),
       Call \<lparr>fetch = (answering FetchError), writeFileSync_ok = True,
        database_get_ok = True, database_upsert_ok = True, larkUser = None\<rparr>
         \<lparr>userId = ''u'', username = ''alice'', platform = ''discord'', sessionContent = ''hello''\<rparr> (Some \<lparr>completion_tokens = 10, prompt_tokens = 20, total_tokens = 30\<rparr>),
       Upsert 0, Upsert 0]
      \<lparr>usageTable = Map.empty, awaiting = []\<rparr>)) ''u'' = (10, 20, 30) \<and>
   counters (mergeAll
      [(\<lparr>fetch = (answering FetchError), writeFileSync_ok = True,
        database_get_ok = True, database_upsert_ok = True, larkUser = None\<rparr>,
       \<lparr>userId = ''u'', username = ''alice'', platform = ''discord'', sessionContent = ''hello''\<rparr>,
       \<lparr>completion_tokens = 9007199254740992, prompt_tokens = 0, total_tokens = 0\<rparr>),
       (\<lparr>fetch = (answering FetchError), writeFileSync_ok = True,
        database_get_ok = True, database_upsert_ok = True, larkUser = None\<rparr>,
       \<lparr>userId = ''u'', username = ''alice'', platform = ''discord'', sessionContent = ''hello''\<rparr>,
       \<lparr>completion_tokens = 1, prompt_tokens = 0, total_tokens = 0\<rparr>),
       (\<lparr>fetch = (answering FetchError), writeFileSync_ok = True,
        database_get_ok = True, database_upsert_ok = True, larkUser = None\<rparr>,
       \<lparr>userId = ''u'', username = ''alice'', platform = ''discord'', sessionContent = ''hello''\<rparr>,
       \<lparr>completion_tokens = 1, prompt_tokens = 0, total_tokens = 0\<rparr>)] Map.empty) ''u'' = (9007199254740992, 0, 0) \<and>
   counters (mergeAll
      [(\<lparr>fetch = (answering FetchError), writeFileSync_ok = True,
        database_get_ok = True, database_upsert_ok = True, larkUser = None\<rparr>,
       \<lparr>userId = ''u'', username = ''alice'', platform = ''discord'', sessionContent = ''hello''\<rparr>,
       \<lparr>completion_tokens = 1, prompt_tokens = 0, total_tokens = 0\<rparr>),
       (\<lparr>fetch = (answering FetchError), writeFileSync_ok = True,
        database_get_ok = True, database_upsert_ok = True, larkUser = None\<rparr>,
       \<lparr>userId = ''u'', username = ''alice'', platform = ''discord'', sessionContent = ''hello''\<rparr>,
       \<lparr>completion_tokens = 1, prompt_tokens = 0, total_tokens = 0\<rparr>),
       (\<lparr>fetch = (answering FetchError), writeFileSync_ok = True,
        database_get_ok = True, database_upsert_ok = True, larkUser = None\<rparr>,
       \<lparr>userId = ''u'', username = ''alice'', platform = ''discord'', sessionContent = ''hello''\<rparr>,
       \<lparr>completion_tokens = 9007199254740992, prompt_tokens = 0, total_tokens = 0\<rparr>)] Map.empty) ''u'' = (9007199254740994, 0, 0)"
  by (simp add: updateTokenUsage_def computeNewUsage_def writeNewUsage_def existingUsage_def
      resolveUserName_def upsert_def counters_def jsAdd_def roundToDouble_def Let_def)

text \<open>The same holds step by step when calls overlap: neither a call up to its \<open>await\<close> nor
  an upsert touches the \<open>remark\<close> of a row.\<close>

lemma ledgerStep_keeps_remark:
  assumes "usageTable l uid = Some row"
  shows "\<exists>row'. usageTable (ledgerStep ev l) uid = Some row' \<and> remark row' = remark row"
proof (cases ev)
  case (Call env session usage_arg)
  with assms show ?thesis by (simp split: option.splits)
next
  case (Upsert i)
  show ?thesis
  proof (cases "i < length (awaiting l)")
    case False
    with Upsert assms show ?thesis by simp
  next
    case True
    obtain env n where "awaiting l ! i = (env, n)" by (cases "awaiting l ! i") auto
    with True Upsert assms show ?thesis
      by (cases "uid = new_id n") (auto simp: writeNewUsage_def upsert_def)
  qed
qed

text \<open>
  Claim C10. The object that \<open>updateTokenUsage\<close> upserts has the fields \<open>id\<close>, \<open>userName\<close>
  and the three counters (the record \<open>NewUsage\<close>) and no \<open>remark\<close>; so whatever a call does,
  a row that was in the table is still there with its \<open>remark\<close> (and its \<open>id\<close>) as before.
\<close>

theorem usage_merge_keeps_remark:
  "db uid = Some row \<Longrightarrow>
   \<exists>row'. updateTokenUsage env session usage_arg db uid = Some row' \<and>
          remark row' = remark row \<and> usageId row' = usageId row"
proof -
  assume row: "db uid = Some row"
  from updateTokenUsage_outcome [of env session usage_arg db]
  show ?thesis
  proof
    assume "updateTokenUsage env session usage_arg db = db"
    with row show ?thesis by simp
  next
    assume "\<exists>name u. usage_arg = Some u \<and>
      updateTokenUsage env session usage_arg db =
        upsert db
          \<lparr>new_id = userId session, new_userName = name,
           new_completionTokens = jsAdd (fst (counters db (userId session))) (completion_tokens u),
           new_promptTokens = jsAdd (fst (snd (counters db (userId session)))) (prompt_tokens u),
           new_totalTokens = jsAdd (snd (snd (counters db (userId session)))) (total_tokens u)\<rparr>"
    then obtain n where "updateTokenUsage env session usage_arg db = upsert db n" by blast
    with row show ?thesis by (cases "uid = new_id n") (auto simp: upsert_def)
  qed
qed

theorem usage_merge_keeps_remark_witness:
  "[''u'' \<mapsto> \<lparr>usageId = ''u'', userName = ''alice'', completionTokens = 1, promptTokens = 2,
               totalTokens = 3, remark = ''vip''\<rparr>] ''u'' =
     Some \<lparr>usageId = ''u'', userName = ''alice'', completionTokens = 1, promptTokens = 2,
           totalTokens = 3, remark = ''vip''\<rparr> \<and>
   updateTokenUsage \<lparr>fetch = (answering FetchError), writeFileSync_ok = True,
        database_get_ok = True, database_upsert_ok = True, larkUser = None\<rparr>
     \<lparr>userId = ''u'', username = ''alice'', platform = ''discord'', sessionContent = ''hello''\<rparr>
     (Some \<lparr>completion_tokens = 5, prompt_tokens = 7, total_tokens = 12\<rparr>)
     [''u'' \<mapsto> \<lparr>usageId = ''u'', userName = ''alice'', completionTokens = 1, promptTokens = 2,
                 totalTokens = 3, remark = ''vip''\<rparr>] ''u'' =
     Some \<lparr>usageId = ''u'', userName = ''alice'', completionTokens = 6, promptTokens = 9,
           totalTokens = 15, remark = ''vip''\<rparr>"
proof -
  let ?row = "\<lparr>usageId = ''u'', userName = ''alice'', completionTokens = 1, promptTokens = 2,
               totalTokens = 3, remark = ''vip''\<rparr>"
  let ?db = "[''u'' \<mapsto> ?row]"
  let ?env = "\<lparr>fetch = (answering FetchError), writeFileSync_ok = True,
        database_get_ok = True, database_upsert_ok = True, larkUser = None\<rparr>"
  let ?session = "\<lparr>userId = ''u'', username = ''alice'', platform = ''discord'', sessionContent = ''hello''\<rparr>"
  let ?usage = "Some \<lparr>completion_tokens = 5, prompt_tokens = 7, total_tokens = 12\<rparr>"
  have h: "?db ''u'' = Some ?row" by simp
  from usage_merge_keeps_remark [of ?db "''u''" ?row ?env ?session ?usage] h
  obtain row' where r: "updateTokenUsage ?env ?session ?usage ?db ''u'' = Some row'"
    "remark row' = remark ?row" "usageId row' = usageId ?row"
    by blast
  have "updateTokenUsage ?env ?session ?usage ?db ''u'' =
     Some \<lparr>usageId = ''u'', userName = ''alice'', completionTokens = 6, promptTokens = 9,
           totalTokens = 15, remark = remark row'\<rparr>"
    using r(2)
    by (simp add: updateTokenUsage_def computeNewUsage_def writeNewUsage_def existingUsage_def
        resolveUserName_def upsert_def jsAdd_exact)
  with r(2) h show ?thesis by simp
qed

end
